theory Spec2Isabelle
  imports Main
begin

section \<open>Strings as the page's code handles them\<close>

text \<open>
  The converter lives in one React component (\<^verbatim>\<open>Index\<close>): \<^verbatim>\<open>convertCronToEventBridge\<close>,
  \<^verbatim>\<open>validateCronExpression\<close>, \<^verbatim>\<open>isValidCronField\<close> and the effect that runs them on
  every change of the input. The sources hold three revisions of the component. The
  functions below follow the one with the typed field validator (\<^verbatim>\<open>isValidCronField\<close>
  takes a \<^verbatim>\<open>fieldType\<close>), which has every rule the specification describes: the names
  of days and months, the refusal of \<^verbatim>\<open>L\<close>, \<^verbatim>\<open>W\<close> and \<^verbatim>\<open>#\<close>, the step test and the
  resolution of the two day fields. Of the two others, one validates without field types
  and one (the file \<^verbatim>\<open>src/pages/Index.tsx\<close>) validates by a character class and converts
  without the resolution of the day fields; their validator and their conversion are
  modelled further down, under names of their own, as far as the properties below speak
  of them.

  A string is a list of code units; \<^typ>\<open>char\<close> covers the code units below 256, read as
  Latin-1. The library calls of the source are modelled one by one: \<^verbatim>\<open>trim\<close>,
  \<^verbatim>\<open>split\<close>, \<^verbatim>\<open>includes\<close>, \<^verbatim>\<open>parseInt\<close>, \<^verbatim>\<open>replace\<close> with a global regular
  expression, and the conversion of a number to text.
\<close>

definition code :: "char \<Rightarrow> nat" where
  "code c = of_char c"

text \<open>The class \<^verbatim>\<open>\s\<close> (and what \<^verbatim>\<open>trim\<close> and \<^verbatim>\<open>parseInt\<close> skip): tab, line feed,
  vertical tab, form feed, carriage return, space, no-break space.\<close>

definition isWhitespace :: "char \<Rightarrow> bool" where
  "isWhitespace c = (code c \<in> {9, 10, 11, 12, 13, 32, 160})"

text \<open>The class \<^verbatim>\<open>\d\<close>.\<close>

definition isDigit :: "char \<Rightarrow> bool" where
  "isDigit c = (48 \<le> code c \<and> code c \<le> 57)"

definition isUpper :: "char \<Rightarrow> bool" where
  "isUpper c = (65 \<le> code c \<and> code c \<le> 90)"

definition isLower :: "char \<Rightarrow> bool" where
  "isLower c = (97 \<le> code c \<and> code c \<le> 122)"

text \<open>The class \<^verbatim>\<open>\w\<close>, which decides where \<^verbatim>\<open>\b\<close> holds.\<close>

definition isWordChar :: "char \<Rightarrow> bool" where
  "isWordChar c = (isDigit c \<or> isUpper c \<or> isLower c \<or> c = CHR ''_'')"

text \<open>Case folding of the \<^verbatim>\<open>i\<close> flag: on code units below 256 only the ASCII letters
  fold onto the letters of a pattern.\<close>

definition toUpperCase :: "char \<Rightarrow> char" where
  "toUpperCase c = (if isLower c then char_of (code c - 32) else c)"


definition digitVal :: "char \<Rightarrow> nat" where
  "digitVal c = code c - 48"

definition trim :: "string \<Rightarrow> string" where
  "trim s = rev (dropWhile isWhitespace (rev (dropWhile isWhitespace s)))"

text \<open>\<^verbatim>\<open>s.split(/\s+/)\<close>: the pieces between maximal runs of whitespace; a string without
  whitespace (the empty one too) is a single piece.\<close>

function splitWhitespace :: "string \<Rightarrow> string list" where
  "splitWhitespace s =
     (let piece = takeWhile (\<lambda>c. \<not> isWhitespace c) s;
          rest = dropWhile (\<lambda>c. \<not> isWhitespace c) s
      in if rest = [] then [piece] else piece # splitWhitespace (dropWhile isWhitespace rest))"
  by pat_completeness auto
termination
proof (relation "measure length", goal_cases)
  case 1
  show ?case by simp
next
  case (2 s piece rest)
  then have "dropWhile (\<lambda>c. \<not> isWhitespace c) s \<noteq> []"
    by simp
  then obtain c cs where r: "dropWhile (\<lambda>c. \<not> isWhitespace c) s = c # cs"
    by (meson neq_Nil_conv)
  then have "isWhitespace c"
    using hd_dropWhile [of "\<lambda>c. \<not> isWhitespace c" s] by auto
  then have "length (dropWhile isWhitespace (c # cs)) \<le> length cs"
    by (simp add: length_dropWhile_le)
  moreover have "length (c # cs) \<le> length s"
    using length_dropWhile_le [of "\<lambda>c. \<not> isWhitespace c" s] r by simp
  ultimately show ?case using 2 r by simp
qed

declare splitWhitespace.simps [simp del]

text \<open>\<^verbatim>\<open>s.split(sep)\<close> for a one-character separator.\<close>

fun split_str :: "char \<Rightarrow> string \<Rightarrow> string list" where
  "split_str sep [] = [[]]"
| "split_str sep (c # cs) =
     (if c = sep then [] # split_str sep cs
      else (case split_str sep cs of [] \<Rightarrow> [[c]] | p # ps \<Rightarrow> (c # p) # ps))"

text \<open>\<^verbatim>\<open>s.includes(x)\<close> for a one-character \<^verbatim>\<open>x\<close>.\<close>

definition includes_str :: "string \<Rightarrow> char \<Rightarrow> bool" where
  "includes_str s x = (x \<in> set s)"

text \<open>A field of a cron expression, as the split on whitespace yields it and as the
  joined result must have it: at least one code unit, none of them whitespace.\<close>

definition noWhitespace :: "string \<Rightarrow> bool" where
  "noWhitespace s = list_all (\<lambda>c. \<not> isWhitespace c) s"

definition isField :: "string \<Rightarrow> bool" where
  "isField s = (s \<noteq> [] \<and> noWhitespace s)"

subsection \<open>Numbers\<close>

text \<open>\<^verbatim>\<open>parseInt(s)\<close> without a radix: leading whitespace is skipped, one sign is read,
  a prefix \<^verbatim>\<open>0x\<close> or \<^verbatim>\<open>0X\<close> selects radix 16, the longest run of digits is the
  number and whatever follows is ignored; \<^verbatim>\<open>NaN\<close> (no digit) is \<open>None\<close>. The tests the
  source makes on the result compare it with small integers only, and those come out the
  same on the number as on the double that holds it.\<close>

definition isRadixDigit :: "nat \<Rightarrow> char \<Rightarrow> bool" where
  "isRadixDigit R c =
     (if R = 16 then isDigit c \<or> (65 \<le> code c \<and> code c \<le> 70) \<or> (97 \<le> code c \<and> code c \<le> 102)
      else isDigit c)"

definition radixDigitVal :: "char \<Rightarrow> nat" where
  "radixDigitVal c =
     (if isDigit c then code c - 48 else if isUpper c then code c - 55 else code c - 87)"

definition parseInt :: "string \<Rightarrow> int option" where
  "parseInt str =
     (let S = dropWhile isWhitespace str;
          negative = (case S of c # _ \<Rightarrow> c = CHR ''-'' | [] \<Rightarrow> False);
          S1 = (case S of c # r \<Rightarrow> if c = CHR ''-'' \<or> c = CHR ''+'' then r else S | [] \<Rightarrow> S);
          hex = (case S1 of a # b # _ \<Rightarrow> a = CHR ''0'' \<and> (b = CHR ''x'' \<or> b = CHR ''X'') | _ \<Rightarrow> False);
          R = (if hex then 16 else 10);
          S2 = (if hex then drop 2 S1 else S1);
          Z = takeWhile (isRadixDigit R) S2;
          mathInt = foldl (\<lambda>acc c. acc * R + radixDigitVal c) 0 Z
      in if Z = [] then None
         else Some (if negative then - int mathInt else int mathInt))"

text \<open>The decimal text of a natural number.\<close>

function showNat :: "nat \<Rightarrow> string" where
  "showNat n =
     (if n < 10 then [''0123456789'' ! n] else showNat (n div 10) @ [''0123456789'' ! (n mod 10)])"
  by pat_completeness auto
termination
  by (relation "measure id") auto

declare showNat.simps [simp del]

text \<open>\<^verbatim>\<open>String(x)\<close> and \<^verbatim>\<open>`${x}`\<close> for an integral number \<open>x\<close>. Below \<open>2^53\<close> the double
  holds the integer itself and the text is its decimal form. From \<open>2^53\<close> on the text is
  that of the nearest double (rounded digits, an exponent, or \<^verbatim>\<open>Infinity\<close>), which belongs
  to the runtime: it is the parameter \<open>big\<close>, and a theorem says so when it needs anything
  of it. A cron field reaches that branch only through a numeral of sixteen digits or
  more in front of a step.\<close>

definition numberToString :: "(int \<Rightarrow> string) \<Rightarrow> int \<Rightarrow> string" where
  "numberToString big x =
     (if \<bar>x\<bar> < 2 ^ 53 then (if x < 0 then CHR ''-'' # showNat (nat (- x)) else showNat (nat x))
      else big x)"

text \<open>The decimal text of an integer, a possible value for \<open>big\<close>.\<close>

definition decimal :: "int \<Rightarrow> string" where
  "decimal x = (if x < 0 then CHR ''-'' # showNat (nat (- x)) else showNat (nat x))"

section \<open>The conversion\<close>

subsection \<open>Rewriting the day-of-week field\<close>

text \<open>\<^verbatim>\<open>s.replace(/SUN/gi, "1")\<close> and its six siblings: a scan from the left that
  replaces each occurrence of a three-letter name, letters compared without case, and
  goes on behind it.\<close>

fun replaceName :: "string \<Rightarrow> string \<Rightarrow> string \<Rightarrow> string" where
  "replaceName name rep (a # b # c # rest) =
     (if map toUpperCase [a, b, c] = name then rep @ replaceName name rep rest
      else a # replaceName name rep (b # c # rest))"
| "replaceName name rep s = s"

definition replaceDayNames :: "string \<Rightarrow> string" where
  "replaceDayNames dayOfWeek =
     replaceName ''SAT'' ''7'' (replaceName ''FRI'' ''6'' (replaceName ''THU'' ''5''
       (replaceName ''WED'' ''4'' (replaceName ''TUE'' ''3'' (replaceName ''MON'' ''2''
         (replaceName ''SUN'' ''1'' dayOfWeek))))))"

text \<open>The callback of \<^verbatim>\<open>replace(/(\d)-(\d)/g, ...)\<close>.\<close>

definition rangeCallback :: "char \<Rightarrow> char \<Rightarrow> string" where
  "rangeCallback start endc =
     (let startNum = digitVal start;
          endNum = digitVal endc;
          newStart = (if startNum = 0 then 1 else startNum + 1);
          newEnd = (if endNum = 0 then 1 else endNum + 1)
      in showNat newStart @ ''-'' @ showNat newEnd)"

fun replaceRanges :: "string \<Rightarrow> string" where
  "replaceRanges (a # b # c # rest) =
     (if isDigit a \<and> b = CHR ''-'' \<and> isDigit c then rangeCallback a c @ replaceRanges rest
      else a # replaceRanges (b # c # rest))"
| "replaceRanges s = s"

text \<open>The callback of \<^verbatim>\<open>replace(/\b(\d)\b/g, ...)\<close>.\<close>

definition digitCallback :: "char \<Rightarrow> string" where
  "digitCallback num =
     (let numVal = digitVal num
      in if numVal = 0 then ''1''
         else if 1 \<le> numVal \<and> numVal \<le> 6 then showNat (numVal + 1)
         else [num])"

text \<open>A digit matches \<^verbatim>\<open>\b(\d)\b\<close> when the code unit before it and the one after it are
  not word characters (or are missing). The flag says whether the code unit before the
  current position is a word character.\<close>

fun replaceDigits :: "bool \<Rightarrow> string \<Rightarrow> string" where
  "replaceDigits afterWord [] = []"
| "replaceDigits afterWord (c # cs) =
     (if isDigit c \<and> \<not> afterWord \<and> (case cs of [] \<Rightarrow> True | d # _ \<Rightarrow> \<not> isWordChar d)
      then digitCallback c @ replaceDigits True cs
      else c # replaceDigits (isWordChar c) cs)"

text \<open>The block \<^verbatim>\<open>if (dayOfWeek.includes("/")) { ... }\<close>.\<close>

definition convertStep :: "(int \<Rightarrow> string) \<Rightarrow> string \<Rightarrow> string" where
  "convertStep big dayOfWeek =
     (if includes_str dayOfWeek CHR ''/'' then
        (case split_str CHR ''/'' dayOfWeek of
           range' # step # _ \<Rightarrow>
             if range' = ''*'' then ''*/'' @ step
             else if includes_str range' CHR ''-'' then dayOfWeek
             else (case parseInt range' of
                     Some baseNum \<Rightarrow>
                       let convertedBase =
                             (if baseNum = 0 then 1
                              else if 1 \<le> baseNum \<and> baseNum \<le> 6 then baseNum + 1 else baseNum)
                       in numberToString big convertedBase @ ''/'' @ step
                   | None \<Rightarrow> dayOfWeek)
         | _ \<Rightarrow> dayOfWeek)
      else dayOfWeek)"

text \<open>The body of \<^verbatim>\<open>if (dayOfWeek !== "*") { ... }\<close>: names, ranges, single digits,
  steps, in that order, each on the result of the one before.\<close>

definition convertDayOfWeek :: "(int \<Rightarrow> string) \<Rightarrow> string \<Rightarrow> string" where
  "convertDayOfWeek big dayOfWeek =
     convertStep big (replaceDigits False (replaceRanges (replaceDayNames dayOfWeek)))"

subsection \<open>\<^verbatim>\<open>convertCronToEventBridge\<close>\<close>

datatype exception = Error string

definition fieldCountMessage :: string where
  "fieldCountMessage =
     ''Unix cron must have exactly 5 fields: minute hour day-of-month month day-of-week''"

text \<open>The day-of-month and day-of-week fields after the block on their mutual exclusion.\<close>

definition resolveDays :: "string \<Rightarrow> string \<Rightarrow> string \<times> string" where
  "resolveDays dayOfMonth dayOfWeek =
     (if dayOfMonth \<noteq> ''*'' \<and> dayOfWeek \<noteq> ''*'' then (dayOfMonth, ''?'')
      else if dayOfMonth = ''*'' \<and> dayOfWeek = ''*'' then (dayOfMonth, ''?'')
      else if dayOfMonth = ''*'' \<and> dayOfWeek \<noteq> ''*'' then (''?'', dayOfWeek)
      else (dayOfMonth, dayOfWeek))"

definition convertCronToEventBridge :: "(int \<Rightarrow> string) \<Rightarrow> string \<Rightarrow> exception + string" where
  "convertCronToEventBridge big cronExpression =
     (case splitWhitespace (trim cronExpression) of
        [minute, hour, dayOfMonth, month, dayOfWeek] \<Rightarrow>
          (let dayOfWeek1 =
                 (if dayOfWeek \<noteq> ''*'' then convertDayOfWeek big dayOfWeek else dayOfWeek);
               (dayOfMonth2, dayOfWeek2) = resolveDays dayOfMonth dayOfWeek1
           in Inr (minute @ '' '' @ hour @ '' '' @ dayOfMonth2 @ '' '' @ month @ '' ''
                   @ dayOfWeek2 @ '' *''))
      | _ \<Rightarrow> Inl (Error fieldCountMessage))"

section \<open>The validation\<close>

definition dayNames :: "string list" where
  "dayNames = [''SUN'', ''MON'', ''TUE'', ''WED'', ''THU'', ''FRI'', ''SAT'']"

definition monthNames :: "string list" where
  "monthNames = [''JAN'', ''FEB'', ''MAR'', ''APR'', ''MAY'', ''JUN'', ''JUL'', ''AUG'', ''SEP'',
                 ''OCT'', ''NOV'', ''DEC'']"

text \<open>\<^verbatim>\<open>field.match(/^(N1|N2|...)(-|,|\/)*[A-Z0-9,\-\/]*$/i)\<close> for a list of three-letter
  names: a name at the start, then separators, then letters, digits and separators up to
  the end.\<close>

definition isSeparator :: "char \<Rightarrow> bool" where
  "isSeparator c = (c = CHR ''-'' \<or> c = CHR '','' \<or> c = CHR ''/'')"

definition isNameTailChar :: "char \<Rightarrow> bool" where
  "isNameTailChar c = (isUpper c \<or> isLower c \<or> isDigit c \<or> isSeparator c)"

definition matchesNamed :: "string list \<Rightarrow> string \<Rightarrow> bool" where
  "matchesNamed names field =
     (map toUpperCase (take 3 field) \<in> set names
      \<and> list_all isNameTailChar (dropWhile isSeparator (drop 3 field)))"

text \<open>The range test, written twice in the source (for \<^verbatim>\<open>a-b/step\<close> and for \<^verbatim>\<open>a-b\<close>).\<close>

definition isValidRange :: "string \<Rightarrow> int \<Rightarrow> int \<Rightarrow> bool" where
  "isValidRange range' min' max' =
     (case map parseInt (split_str CHR ''-'' range') of
        Some start # Some endv # _ \<Rightarrow> start \<ge> min' \<and> endv \<le> max' \<and> start \<le> endv
      | _ \<Rightarrow> False)"

definition isValidNumber :: "string \<Rightarrow> int \<Rightarrow> int \<Rightarrow> bool" where
  "isValidNumber val min' max' =
     (case parseInt val of None \<Rightarrow> False | Some num \<Rightarrow> num \<ge> min' \<and> num \<le> max')"

text \<open>The block \<^verbatim>\<open>if (field.includes("/")) { ... }\<close> of the validator: the step must parse
  to a number above 0, and then the part before the first \<^verbatim>\<open>/\<close> is \<^verbatim>\<open>*\<close>, a range or a
  number.\<close>

definition isValidStep :: "string \<Rightarrow> int \<Rightarrow> int \<Rightarrow> bool" where
  "isValidStep field min' max' =
     (case split_str CHR ''/'' field of
        range' # step # _ \<Rightarrow>
          (case parseInt step of
             None \<Rightarrow> False
           | Some stepNum \<Rightarrow>
               if stepNum \<le> 0 then False
               else if range' = ''*'' then True
               else if includes_str range' CHR ''-'' then isValidRange range' min' max'
               else isValidNumber range' min' max')
      | _ \<Rightarrow> False)"

definition isValidCronField :: "string \<Rightarrow> int \<Rightarrow> int \<Rightarrow> string \<Rightarrow> bool" where
  "isValidCronField field min' max' fieldType =
     (if field = ''*'' then True
      else if fieldType = ''dayOfMonth'' \<and> field = ''L'' then False
      else if fieldType = ''dayOfMonth'' \<and> includes_str field CHR ''W'' then False
      else if fieldType = ''dayOfWeek'' \<and> includes_str field CHR ''#'' then False
      else if fieldType = ''dayOfWeek'' \<and> includes_str field CHR ''L'' then False
      else if fieldType = ''dayOfWeek'' \<and> matchesNamed dayNames field then True
      else if fieldType = ''month'' \<and> matchesNamed monthNames field then True
      else if includes_str field CHR ''/'' then isValidStep field min' max'
      else if includes_str field CHR ''-'' then isValidRange field min' max'
      else if includes_str field CHR '','' then
        list_all (\<lambda>val. isValidNumber val min' max') (map trim (split_str CHR '','' field))
      else isValidNumber field min' max')"

definition validateCronExpression :: "string \<Rightarrow> bool" where
  "validateCronExpression cronExpression =
     (case splitWhitespace (trim cronExpression) of
        [minute, hour, dayOfMonth, month, dayOfWeek] \<Rightarrow>
          if \<not> isValidCronField minute 0 59 ''minute'' then False
          else if \<not> isValidCronField hour 0 23 ''hour'' then False
          else if \<not> isValidCronField dayOfMonth 1 31 ''dayOfMonth'' then False
          else if \<not> isValidCronField month 1 12 ''month'' then False
          else if \<not> isValidCronField dayOfWeek 0 7 ''dayOfWeek'' then False
          else True
      | _ \<Rightarrow> False)"

section \<open>The effect that runs on every change of the input\<close>

record page =
  eventBridgeCron :: string
  isValid :: bool
  error :: string

definition invalidMessage :: string where
  "invalidMessage =
     ''Invalid Unix cron expression. Check field values, ranges, and note that L, W, and # wildcards are not supported in Unix cron.''"

definition onUnixCronChange :: "(int \<Rightarrow> string) \<Rightarrow> string \<Rightarrow> page" where
  "onUnixCronChange big unixCron =
     (if trim unixCron = [] then \<lparr>eventBridgeCron = [], isValid = True, error = []\<rparr>
      else if \<not> validateCronExpression unixCron
        then \<lparr>eventBridgeCron = [], isValid = False, error = invalidMessage\<rparr>
      else (case convertCronToEventBridge big unixCron of
              Inr converted \<Rightarrow> \<lparr>eventBridgeCron = converted, isValid = True, error = []\<rparr>
            | Inl (Error message) \<Rightarrow> \<lparr>eventBridgeCron = [], isValid = False, error = message\<rparr>))"

section \<open>The other revisions\<close>

subsection \<open>The conversion of \<^verbatim>\<open>src/pages/Index.tsx\<close>\<close>

text \<open>\<^verbatim>\<open>s.replace(/\b(C)\b/g, f)\<close> for a class \<open>C\<close> of single word characters: the scan of
  \<^const>\<open>replaceDigits\<close> with the class and the callback left open.\<close>

fun replaceBounded :: "(char \<Rightarrow> bool) \<Rightarrow> (char \<Rightarrow> string) \<Rightarrow> bool \<Rightarrow> string \<Rightarrow> string" where
  "replaceBounded cls f afterWord [] = []"
| "replaceBounded cls f afterWord (c # cs) =
     (if cls c \<and> \<not> afterWord \<and> (case cs of [] \<Rightarrow> True | d # _ \<Rightarrow> \<not> isWordChar d)
      then f c @ replaceBounded cls f True cs
      else c # replaceBounded cls f (isWordChar c) cs)"

text \<open>The class \<^verbatim>\<open>[1-6]\<close>.\<close>

definition isOneToSix :: "char \<Rightarrow> bool" where
  "isOneToSix c = (49 \<le> code c \<and> code c \<le> 54)"

text \<open>\<^verbatim>\<open>dayOfWeek.replace(/\b0\b/g, "7").replace(/\b([1-6])\b/g, ...)\<close>, the callback
  being \<^verbatim>\<open>String(parseInt(p1) + 1)\<close>.\<close>

definition renumberDayOfWeek :: "string \<Rightarrow> string" where
  "renumberDayOfWeek dayOfWeek =
     replaceBounded isOneToSix (\<lambda>p1. showNat (digitVal p1 + 1)) False
       (replaceBounded (\<lambda>c. c = CHR ''0'') (\<lambda>c. ''7'') False dayOfWeek)"

definition fieldCountMessage_Index :: string where
  "fieldCountMessage_Index =
     ''Unix cron must have exactly 5 fields: minute hour day month day-of-week''"

definition convertCronToEventBridge_Index :: "string \<Rightarrow> exception + string" where
  "convertCronToEventBridge_Index cronExpression =
     (case splitWhitespace (trim cronExpression) of
        [minute, hour, dayOfMonth, month, dayOfWeek] \<Rightarrow>
          (let convertedDayOfWeek =
                 (if dayOfWeek \<noteq> ''*'' \<and> dayOfWeek \<noteq> ''?'' then renumberDayOfWeek dayOfWeek
                  else dayOfWeek)
           in Inr (minute @ '' '' @ hour @ '' '' @ dayOfMonth @ '' '' @ month @ '' ''
                   @ convertedDayOfWeek @ '' *''))
      | _ \<Rightarrow> Inl (Error fieldCountMessage_Index))"

subsection \<open>The validator without field types\<close>

text \<open>\<^verbatim>\<open>field.match(/^(SUN|...|SAT)(-|,)*(SUN|...|SAT)*$/)\<close>, letters compared as they
  are: a day name, then hyphens and commas, then day names up to the end.\<close>

fun onlyDayNames :: "string \<Rightarrow> bool" where
  "onlyDayNames [] = True"
| "onlyDayNames (a # b # c # rest) = ([a, b, c] \<in> set dayNames \<and> onlyDayNames rest)"
| "onlyDayNames s = False"

definition matchesDayNames_untyped :: "string \<Rightarrow> bool" where
  "matchesDayNames_untyped field =
     (take 3 field \<in> set dayNames
      \<and> onlyDayNames (dropWhile (\<lambda>c. c = CHR ''-'' \<or> c = CHR '','') (drop 3 field)))"

text \<open>The block \<^verbatim>\<open>if (field.includes("/")) { ... }\<close> of this validator: the step is
  parsed only when the part before the first \<^verbatim>\<open>/\<close> is \<^verbatim>\<open>*\<close>.\<close>

definition isValidStep_untyped :: "string \<Rightarrow> int \<Rightarrow> int \<Rightarrow> bool" where
  "isValidStep_untyped field min' max' =
     (case split_str CHR ''/'' field of
        range' # step # _ \<Rightarrow>
          if range' = ''*'' then
            (case parseInt step of None \<Rightarrow> False | Some stepNum \<Rightarrow> stepNum > 0)
          else if includes_str range' CHR ''-'' then isValidRange range' min' max'
          else isValidNumber range' min' max'
      | _ \<Rightarrow> False)"

definition isValidCronField_untyped :: "string \<Rightarrow> int \<Rightarrow> int \<Rightarrow> bool" where
  "isValidCronField_untyped field min' max' =
     (if field = ''*'' then True
      else if matchesDayNames_untyped field then True
      else if includes_str field CHR ''/'' then isValidStep_untyped field min' max'
      else if includes_str field CHR ''-'' then isValidRange field min' max'
      else if includes_str field CHR '','' then
        list_all (\<lambda>n. isValidNumber (trim n) min' max') (split_str CHR '','' field)
      else isValidNumber field min' max')"

definition validateCronExpression_untyped :: "string \<Rightarrow> bool" where
  "validateCronExpression_untyped cronExpression =
     (case splitWhitespace (trim cronExpression) of
        [minute, hour, dayOfMonth, month, dayOfWeek] \<Rightarrow>
          if \<not> isValidCronField_untyped minute 0 59 then False
          else if \<not> isValidCronField_untyped hour 0 23 then False
          else if \<not> isValidCronField_untyped dayOfMonth 1 31 then False
          else if \<not> isValidCronField_untyped month 1 12 then False
          else if \<not> isValidCronField_untyped dayOfWeek 0 7 then False
          else True
      | _ \<Rightarrow> False)"

section \<open>Notions of the specification\<close>

text \<open>A day field is specific when it is neither \<^verbatim>\<open>*\<close> nor \<^verbatim>\<open>?\<close>.\<close>

definition isSpecific :: "string \<Rightarrow> bool" where
  "isSpecific field = (field \<noteq> ''*'' \<and> field \<noteq> ''?'')"

section \<open>Facts about the string functions\<close>

subsection \<open>Pieces of a trimmed string\<close>

lemma space_isWhitespace: "isWhitespace CHR '' ''"
  by (simp add: isWhitespace_def code_def)

lemma star_not_whitespace: "\<not> isWhitespace CHR ''*''"
  by (simp add: isWhitespace_def code_def)

lemma splitWhitespace_no_whitespace:
  "p \<in> set (splitWhitespace s) \<Longrightarrow> c \<in> set p \<Longrightarrow> \<not> isWhitespace c"
proof (induction s rule: splitWhitespace.induct)
  case (1 s)
  let ?rest = "dropWhile (\<lambda>c. \<not> isWhitespace c) s"
  show ?case
  proof (cases "?rest = []")
    case True
    with 1(2) have "p = takeWhile (\<lambda>c. \<not> isWhitespace c) s"
      by (simp add: splitWhitespace.simps [of s])
    with 1(3) show ?thesis by (auto dest: set_takeWhileD)
  next
    case False
    have "splitWhitespace s = takeWhile (\<lambda>c. \<not> isWhitespace c) s
        # splitWhitespace (dropWhile isWhitespace ?rest)"
      using False by (subst splitWhitespace.simps) (simp only: Let_def if_False)
    with 1(2) have "p = takeWhile (\<lambda>c. \<not> isWhitespace c) s
        \<or> p \<in> set (splitWhitespace (dropWhile isWhitespace ?rest))"
      by simp
    then show ?thesis
    proof
      assume "p = takeWhile (\<lambda>c. \<not> isWhitespace c) s"
      with 1(3) show ?thesis by (auto dest: set_takeWhileD)
    next
      assume "p \<in> set (splitWhitespace (dropWhile isWhitespace ?rest))"
      with 1(1) [OF refl refl False] 1(3) show ?thesis by simp
    qed
  qed
qed

lemma last_dropWhile: "dropWhile P xs \<noteq> [] \<Longrightarrow> last (dropWhile P xs) = last xs"
  by (metis last_appendR takeWhile_dropWhile_id)

lemma splitWhitespace_no_empty:
  "s \<noteq> [] \<Longrightarrow> \<not> isWhitespace (hd s) \<Longrightarrow> \<not> isWhitespace (last s)
   \<Longrightarrow> [] \<notin> set (splitWhitespace s)"
proof (induction s rule: splitWhitespace.induct)
  case (1 s)
  let ?piece = "takeWhile (\<lambda>c. \<not> isWhitespace c) s"
  let ?rest = "dropWhile (\<lambda>c. \<not> isWhitespace c) s"
  from 1(2,3) have piece: "?piece \<noteq> []"
    by (cases s) auto
  show ?case
  proof (cases "?rest = []")
    case True
    with piece show ?thesis
      by (simp add: splitWhitespace.simps [of s])
  next
    case False
    let ?next = "dropWhile isWhitespace ?rest"
    have l: "last ?rest = last s"
      using False by (rule last_dropWhile)
    have "last ?rest \<in> set ?rest"
      using False by simp
    with l 1(4) have n: "?next \<noteq> []"
      by (auto simp: dropWhile_eq_Nil_conv)
    then have h: "\<not> isWhitespace (hd ?next)"
      by (rule hd_dropWhile)
    have "last ?next = last s"
      using n l by (simp add: last_dropWhile)
    with 1(4) have "\<not> isWhitespace (last ?next)"
      by simp
    with 1(1) [OF refl refl False n h] have "[] \<notin> set (splitWhitespace ?next)" .
    with piece False show ?thesis
      by (simp add: splitWhitespace.simps [of s] Let_def)
  qed
qed

lemma trim_ends:
  "trim s = [] \<or> (\<not> isWhitespace (hd (trim s)) \<and> \<not> isWhitespace (last (trim s)))"
proof (cases "trim s = []")
  case True
  then show ?thesis by simp
next
  case False
  let ?t = "dropWhile isWhitespace s"
  let ?u = "dropWhile isWhitespace (rev ?t)"
  from False have u: "?u \<noteq> []"
    by (simp add: trim_def)
  then have "\<not> isWhitespace (hd ?u)"
    by (rule hd_dropWhile)
  then have a: "\<not> isWhitespace (last (trim s))"
    using u by (simp add: trim_def last_rev)
  have t: "?t \<noteq> []"
  proof
    assume "?t = []"
    then have "?u = []" by (simp only: rev.simps dropWhile.simps)
    with u show False ..
  qed
  then have "\<not> isWhitespace (hd ?t)"
    by (rule hd_dropWhile)
  moreover have "last ?u = last (rev ?t)"
    using u by (rule last_dropWhile)
  ultimately have "\<not> isWhitespace (hd (trim s))"
    using u t by (simp add: trim_def hd_rev last_rev)
  with a show ?thesis by simp
qed

lemma splitWhitespace_tokens:
  assumes "splitWhitespace (trim s) = ts" and "2 \<le> length ts" and "t \<in> set ts"
  shows "t \<noteq> [] \<and> (\<forall>c\<in>set t. \<not> isWhitespace c)"
proof -
  have "trim s \<noteq> []"
  proof
    assume "trim s = []"
    then have "splitWhitespace (trim s) = [[]]"
      by (simp add: splitWhitespace.simps [of "[]"])
    with assms show False by auto
  qed
  with trim_ends [of s] have "[] \<notin> set (splitWhitespace (trim s))"
    using splitWhitespace_no_empty [of "trim s"] by blast
  with assms splitWhitespace_no_whitespace [of t "trim s"] show ?thesis
    by auto
qed

lemma splitWhitespace_single:
  "\<forall>c\<in>set p. \<not> isWhitespace c \<Longrightarrow> splitWhitespace p = [p]"
  by (simp add: splitWhitespace.simps [of p] Let_def takeWhile_eq_all_conv [THEN iffD2] dropWhile_eq_Nil_conv [THEN iffD2])

lemma splitWhitespace_cons:
  assumes "\<forall>c\<in>set p. \<not> isWhitespace c" and "r \<noteq> []" and "\<not> isWhitespace (hd r)"
  shows "splitWhitespace (p @ CHR '' '' # r) = p # splitWhitespace r"
proof -
  have t: "takeWhile (\<lambda>c. \<not> isWhitespace c) (p @ CHR '' '' # r) = p"
    using assms(1) by (simp add: takeWhile_append2 space_isWhitespace)
  have d: "dropWhile (\<lambda>c. \<not> isWhitespace c) (p @ CHR '' '' # r) = CHR '' '' # r"
    using assms(1) by (simp add: dropWhile_append2 space_isWhitespace)
  have "dropWhile isWhitespace (CHR '' '' # r) = r"
    using assms(2,3) by (cases r) (simp_all add: space_isWhitespace)
  then show ?thesis
    by (simp add: splitWhitespace.simps [of "p @ CHR '' '' # r"] t d)
qed

subsection \<open>Digits\<close>

lemma digit_char_isDigit: "n < 10 \<Longrightarrow> isDigit (''0123456789'' ! n)"
proof -
  assume "n < 10"
  have "list_all (\<lambda>k. isDigit (''0123456789'' ! k)) [0..<10]"
    by code_simp
  with \<open>n < 10\<close> show ?thesis
    by (simp add: list_all_iff)
qed

lemma showNat_digits: "c \<in> set (showNat n) \<Longrightarrow> isDigit c"
proof (induction n rule: showNat.induct)
  case (1 n)
  show ?case
  proof (cases "n < 10")
    case True
    with 1(2) show ?thesis
      by (simp add: showNat.simps [of n] digit_char_isDigit)
  next
    case False
    with 1 show ?thesis
      by (auto simp: showNat.simps [of n] digit_char_isDigit)
  qed
qed

lemma showNat_not_empty: "showNat n \<noteq> []"
  by (simp add: showNat.simps [of n])

lemma isDigit_not_whitespace: "isDigit c \<Longrightarrow> \<not> isWhitespace c"
  by (auto simp: isDigit_def isWhitespace_def)

lemma isDigit_not_star: "isDigit c \<Longrightarrow> c \<noteq> CHR ''*''"
  by (auto simp: isDigit_def code_def)

lemma isDigit_isWordChar: "isDigit c \<Longrightarrow> isWordChar c"
  by (simp add: isWordChar_def)

subsection \<open>The replacement passes keep a field a field\<close>

lemma rangeCallback_chars: "c \<in> set (rangeCallback a b) \<Longrightarrow> isDigit c \<or> c = CHR ''-''"
  by (auto simp: rangeCallback_def Let_def dest: showNat_digits)

lemma rangeCallback_not_empty: "rangeCallback a b \<noteq> []"
  by (simp add: rangeCallback_def Let_def)

lemma digitCallback_digits: "isDigit d \<Longrightarrow> c \<in> set (digitCallback d) \<Longrightarrow> isDigit c"
  by (auto simp: digitCallback_def Let_def dest: showNat_digits split: if_splits)
     (simp add: isDigit_def code_def)

lemma digitCallback_not_empty: "digitCallback d \<noteq> []"
  by (simp add: digitCallback_def Let_def showNat_not_empty)

lemma replaceName_chars:
  "c \<in> set (replaceName name rep s) \<Longrightarrow> c \<in> set s \<or> c \<in> set rep"
  by (induction name rep s rule: replaceName.induct) (auto split: if_splits)

lemma replaceName_not_empty: "rep \<noteq> [] \<Longrightarrow> s \<noteq> [] \<Longrightarrow> replaceName name rep s \<noteq> []"
  by (induction name rep s rule: replaceName.induct) auto

lemma replaceName_star:
  assumes "replaceName name rep s = ''*''" and "rep \<noteq> []" and "CHR ''*'' \<notin> set rep"
  shows "s = ''*''"
proof (cases s)
  case Nil
  with assms(1) show ?thesis by simp
next
  case s: (Cons a s1)
  show ?thesis
  proof (cases s1)
    case Nil
    with assms(1) s show ?thesis by simp
  next
    case s1: (Cons b s2)
    show ?thesis
    proof (cases s2)
      case Nil
      with assms(1) s s1 show ?thesis by simp
    next
      case s2: (Cons c rest)
      show ?thesis
      proof (cases "map toUpperCase [a, b, c] = name")
        case True
        with assms(1) s s1 s2 have "rep @ replaceName name rep rest = ''*''"
          by simp
        with assms(2) have "hd rep = CHR ''*''"
          by (cases rep) auto
        with assms(2,3) show ?thesis
          by (cases rep) auto
      next
        case False
        with assms(1) s s1 s2 have "replaceName name rep (b # c # rest) = []"
          by simp
        with assms(2) replaceName_not_empty [of rep "b # c # rest" name] show ?thesis
          by simp
      qed
    qed
  qed
qed

lemma replaceRanges_chars:
  "c \<in> set (replaceRanges s) \<Longrightarrow> c \<in> set s \<or> isDigit c \<or> c = CHR ''-''"
  by (induction s rule: replaceRanges.induct) (auto split: if_splits dest: rangeCallback_chars)

lemma replaceRanges_not_empty: "s \<noteq> [] \<Longrightarrow> replaceRanges s \<noteq> []"
  by (induction s rule: replaceRanges.induct) (auto simp: rangeCallback_not_empty)

lemma replaceRanges_star:
  assumes "replaceRanges s = ''*''"
  shows "s = ''*''"
proof (cases s)
  case Nil
  with assms(1) show ?thesis by simp
next
  case s: (Cons a s1)
  show ?thesis
  proof (cases s1)
    case Nil
    with assms(1) s show ?thesis by simp
  next
    case s1: (Cons b s2)
    show ?thesis
    proof (cases s2)
      case Nil
      with assms(1) s s1 show ?thesis by simp
    next
      case s2: (Cons c rest)
      show ?thesis
      proof (cases "isDigit a \<and> b = CHR ''-'' \<and> isDigit c")
        case True
        with assms(1) s s1 s2 have e: "rangeCallback a c @ replaceRanges rest = ''*''"
          by simp
        have "hd (rangeCallback a c) \<in> set (rangeCallback a c)"
          using rangeCallback_not_empty by simp
        moreover from e have "hd (rangeCallback a c) = CHR ''*''"
          using rangeCallback_not_empty [of a c] by (cases "rangeCallback a c") auto
        ultimately show ?thesis
          using rangeCallback_chars [of "CHR ''*''" a c] by (auto dest: isDigit_not_star)
      next
        case False
        with assms(1) s s1 s2 have "replaceRanges (b # c # rest) = []"
          by auto
        with replaceRanges_not_empty [of "b # c # rest"] show ?thesis
          by simp
      qed
    qed
  qed
qed

lemma replaceDigits_chars:
  "c \<in> set (replaceDigits w s) \<Longrightarrow> c \<in> set s \<or> isDigit c"
  by (induction w s rule: replaceDigits.induct) (auto split: if_splits dest: digitCallback_digits)

lemma replaceDigits_not_empty: "s \<noteq> [] \<Longrightarrow> replaceDigits w s \<noteq> []"
  by (cases s) (auto simp: digitCallback_not_empty)

lemma replaceDigits_star:
  assumes "replaceDigits w s = ''*''"
  shows "s = ''*''"
proof (cases s)
  case Nil
  with assms show ?thesis by simp
next
  case s: (Cons a cs)
  show ?thesis
  proof (cases "isDigit a \<and> \<not> w \<and> (case cs of [] \<Rightarrow> True | d # _ \<Rightarrow> \<not> isWordChar d)")
    case True
    with assms s have e: "digitCallback a @ replaceDigits True cs = ''*''"
      by simp
    have "hd (digitCallback a) \<in> set (digitCallback a)"
      using digitCallback_not_empty by simp
    moreover from e have "hd (digitCallback a) = CHR ''*''"
      using digitCallback_not_empty [of a] by (cases "digitCallback a") auto
    ultimately show ?thesis
      using True digitCallback_digits [of a "CHR ''*''"] by (auto dest: isDigit_not_star)
  next
    case False
    with assms s have "a = CHR ''*'' \<and> replaceDigits (isWordChar a) cs = []"
      by auto
    with s replaceDigits_not_empty [of cs "isWordChar a"] show ?thesis
      by auto
  qed
qed

lemma split_str_subset: "p \<in> set (split_str sep s) \<Longrightarrow> set p \<subseteq> set s"
proof (induction s arbitrary: p)
  case Nil
  then show ?case by simp
next
  case (Cons a s)
  show ?case
  proof (cases "a = sep")
    case True
    with Cons show ?thesis by auto
  next
    case False
    show ?thesis
    proof (cases "split_str sep s")
      case Nil
      with Cons False show ?thesis by simp
    next
      case q: (Cons q qs)
      with False Cons.prems have "p = a # q \<or> p \<in> set qs"
        by simp
      then show ?thesis
      proof
        assume "p = a # q"
        moreover have "set q \<subseteq> set s"
          using Cons.IH [of q] q by simp
        ultimately show ?thesis by auto
      next
        assume "p \<in> set qs"
        then have "set p \<subseteq> set s"
          using Cons.IH [of p] q by simp
        then show ?thesis by auto
      qed
    qed
  qed
qed

subsection \<open>The rewritten day-of-week field\<close>

lemma noWhitespace_iff: "noWhitespace s \<longleftrightarrow> (\<forall>c\<in>set s. \<not> isWhitespace c)"
  by (simp add: noWhitespace_def list_all_iff)

lemma replaceDayNames_chars:
  "c \<in> set (replaceDayNames s) \<Longrightarrow> c \<in> set s \<or> isDigit c"
  unfolding replaceDayNames_def
  by (auto dest!: replaceName_chars simp: isDigit_def code_def)

lemma replaceDayNames_not_empty: "s \<noteq> [] \<Longrightarrow> replaceDayNames s \<noteq> []"
  unfolding replaceDayNames_def by (simp add: replaceName_not_empty)

lemma replaceDayNames_star: "replaceDayNames s = ''*'' \<Longrightarrow> s = ''*''"
  unfolding replaceDayNames_def
  by (auto dest!: replaceName_star)

lemma numberToString_noWhitespace:
  "(\<forall>x. noWhitespace (big x)) \<Longrightarrow> noWhitespace (numberToString big x)"
  by (auto simp: numberToString_def noWhitespace_iff isWhitespace_def code_def
      dest: showNat_digits [THEN isDigit_not_whitespace])

lemma decimal_noWhitespace: "noWhitespace (decimal x)"
  by (auto simp: decimal_def noWhitespace_iff
      dest: showNat_digits [THEN isDigit_not_whitespace])
     (simp add: isWhitespace_def code_def)

lemma convertStep_cases:
  "convertStep big s = s
   \<or> (\<exists>base step. convertStep big s = base @ ''/'' @ step
        \<and> (base = ''*'' \<or> (\<exists>x. base = numberToString big x)) \<and> set step \<subseteq> set s)"
proof (cases "includes_str s CHR ''/''")
  case False
  then show ?thesis by (simp add: convertStep_def)
next
  case True
  show ?thesis
  proof (cases "split_str CHR ''/'' s")
    case Nil
    with True show ?thesis by (simp add: convertStep_def)
  next
    case r: (Cons r rs)
    show ?thesis
    proof (cases rs)
      case Nil
      with True r show ?thesis by (simp add: convertStep_def)
    next
      case (Cons step rest)
      with r have "step \<in> set (split_str CHR ''/'' s)" by simp
      then have "set step \<subseteq> set s" by (rule split_str_subset)
      have e: "convertStep big s =
          (if r = ''*'' then ''*/'' @ step
           else if includes_str r CHR ''-'' then s
           else (case parseInt r of
                   Some baseNum \<Rightarrow>
                     numberToString big
                       (if baseNum = 0 then 1
                        else if 1 \<le> baseNum \<and> baseNum \<le> 6 then baseNum + 1 else baseNum)
                     @ ''/'' @ step
                 | None \<Rightarrow> s))"
        using True r Cons by (simp add: convertStep_def Let_def split: option.splits)
      show ?thesis
      proof (cases "r = ''*''")
        case True
        with e have "convertStep big s = ''*'' @ ''/'' @ step" by simp
        with \<open>set step \<subseteq> set s\<close> show ?thesis by blast
      next
        case False
        show ?thesis
        proof (cases "includes_str r CHR ''-''")
          case True
          with e False show ?thesis by simp
        next
          case dash: False
          show ?thesis
          proof (cases "parseInt r")
            case None
            with e False dash show ?thesis by simp
          next
            case (Some baseNum)
            with e False dash \<open>set step \<subseteq> set s\<close> show ?thesis
              by (intro disjI2 exI conjI) (simp, blast, assumption)
          qed
        qed
      qed
    qed
  qed
qed

lemma convertStep_star: "convertStep big s = ''*'' \<Longrightarrow> s = ''*''"
proof -
  assume a: "convertStep big s = ''*''"
  from convertStep_cases [of big s] consider
    (same) "convertStep big s = s"
    | (step) base step where "convertStep big s = base @ ''/'' @ step"
    by blast
  then show ?thesis
  proof cases
    case same
    with a show ?thesis by simp
  next
    case step
    then have "CHR ''/'' \<in> set (convertStep big s)" by simp
    with a show ?thesis by simp
  qed
qed

lemma convertStep_not_empty: "s \<noteq> [] \<Longrightarrow> convertStep big s \<noteq> []"
  using convertStep_cases [of big s] by auto

lemma convertStep_noWhitespace:
  assumes "\<forall>x. noWhitespace (big x)" and "noWhitespace s"
  shows "noWhitespace (convertStep big s)"
proof -
  have slash: "\<not> isWhitespace CHR ''/''" "\<not> isWhitespace CHR ''*''"
    by (simp_all add: isWhitespace_def code_def)
  from convertStep_cases [of big s] consider
    (same) "convertStep big s = s"
    | (step) base step where "convertStep big s = base @ ''/'' @ step"
        "base = ''*'' \<or> (\<exists>x. base = numberToString big x)" "set step \<subseteq> set s"
    by blast
  then show ?thesis
  proof cases
    case same
    with assms(2) show ?thesis by simp
  next
    case step
    from step(2) assms(1) have "noWhitespace base"
      by (auto simp: numberToString_noWhitespace) (simp add: noWhitespace_def slash)
    moreover from step(3) assms(2) have "noWhitespace step"
      by (auto simp: noWhitespace_iff)
    ultimately show ?thesis
      using step(1) slash by (auto simp: noWhitespace_iff)
  qed
qed

lemma convertDayOfWeek_star: "convertDayOfWeek big w = ''*'' \<Longrightarrow> w = ''*''"
  unfolding convertDayOfWeek_def
  by (blast dest: convertStep_star replaceDigits_star replaceRanges_star replaceDayNames_star)

lemma convertDayOfWeek_isField:
  assumes "\<forall>x. noWhitespace (big x)" and "isField w"
  shows "isField (convertDayOfWeek big w)"
proof -
  let ?a = "replaceDayNames w"
  let ?b = "replaceRanges ?a"
  let ?c = "replaceDigits False ?b"
  have dash: "\<not> isWhitespace CHR ''-''"
    by (simp add: isWhitespace_def code_def)
  from assms(2) have a: "isField ?a"
    by (auto simp: isField_def noWhitespace_iff replaceDayNames_not_empty
        dest!: replaceDayNames_chars dest: isDigit_not_whitespace)
  then have b: "isField ?b"
    using dash by (auto simp: isField_def noWhitespace_iff replaceRanges_not_empty
        dest!: replaceRanges_chars dest: isDigit_not_whitespace)
  then have c: "isField ?c"
    by (auto simp: isField_def noWhitespace_iff replaceDigits_not_empty
        dest!: replaceDigits_chars dest: isDigit_not_whitespace)
  with assms(1) show ?thesis
    by (simp add: convertDayOfWeek_def isField_def convertStep_not_empty convertStep_noWhitespace)
qed

subsection \<open>The shape of the result\<close>

lemma length_five: "length ts = 5 \<longleftrightarrow> (\<exists>a b c d e. ts = [a, b, c, d, e])"
  by (auto simp: length_Suc_conv eval_nat_numeral)

lemma convert_five:
  assumes "splitWhitespace (trim s) = [m, h, d, mo, w]"
  shows "convertCronToEventBridge big s =
     Inr (m @ '' '' @ h @ '' ''
          @ fst (resolveDays d (if w \<noteq> ''*'' then convertDayOfWeek big w else w))
          @ '' '' @ mo @ '' ''
          @ snd (resolveDays d (if w \<noteq> ''*'' then convertDayOfWeek big w else w)) @ '' *'')"
  using assms by (simp add: convertCronToEventBridge_def Let_def split_beta)

lemma convert_error_iff:
  "(\<exists>e. convertCronToEventBridge big s = Inl e) \<longleftrightarrow> length (splitWhitespace (trim s)) \<noteq> 5"
proof (cases "length (splitWhitespace (trim s)) = 5")
  case True
  then obtain a b c d e where "splitWhitespace (trim s) = [a, b, c, d, e]"
    by (auto simp: length_five)
  from convert_five [OF this] True show ?thesis by simp
next
  case False
  then have "convertCronToEventBridge big s = Inl (Error fieldCountMessage)"
    by (auto simp: convertCronToEventBridge_def split: list.splits)
  with False show ?thesis by simp
qed

lemma isField_hd: "isField t \<Longrightarrow> t @ r \<noteq> [] \<and> \<not> isWhitespace (hd (t @ r))"
  by (cases t) (auto simp: isField_def noWhitespace_def)

lemma split_field_cons:
  assumes "isField t" and "isField u"
  shows "splitWhitespace (t @ '' '' @ u @ r) = t # splitWhitespace (u @ r)"
proof -
  have "splitWhitespace (t @ CHR '' '' # (u @ r)) = t # splitWhitespace (u @ r)"
    using assms isField_hd [of u r]
    by (intro splitWhitespace_cons) (auto simp: isField_def noWhitespace_iff)
  then show ?thesis by simp
qed

lemma split_six:
  assumes "isField a" "isField b" "isField c" "isField d" "isField e" "isField f"
  shows "splitWhitespace (a @ '' '' @ b @ '' '' @ c @ '' '' @ d @ '' '' @ e @ '' '' @ f)
         = [a, b, c, d, e, f]"
proof -
  have "splitWhitespace f = [f]"
    using assms(6) by (simp add: splitWhitespace_single isField_def noWhitespace_iff)
  moreover have "splitWhitespace (e @ '' '' @ f) = e # splitWhitespace f"
    using split_field_cons [OF assms(5,6), of "[]"] by simp
  ultimately show ?thesis
    using assms by (simp add: split_field_cons del: append_Cons append_Nil)
qed

lemma isField_star: "isField ''*''"
  by (simp add: isField_def noWhitespace_def isWhitespace_def code_def)

lemma isField_question: "isField ''?''"
  by (simp add: isField_def noWhitespace_def isWhitespace_def code_def)

lemma resolveDays_isField:
  "isField d \<Longrightarrow> isField w \<Longrightarrow> isField (fst (resolveDays d w)) \<and> isField (snd (resolveDays d w))"
  by (auto simp: resolveDays_def isField_question)

lemma tokens_isField:
  assumes "splitWhitespace (trim s) = ts" and "2 \<le> length ts" and "t \<in> set ts"
  shows "isField t"
  using splitWhitespace_tokens [OF assms] by (simp add: isField_def noWhitespace_iff)

lemma converted_isField:
  assumes "\<forall>x. noWhitespace (big x)" and "isField w"
  shows "isField (if w \<noteq> ''*'' then convertDayOfWeek big w else w)"
  using assms by (auto simp: convertDayOfWeek_isField)

lemma convert_result:
  assumes "\<forall>x. noWhitespace (big x)" and "splitWhitespace (trim s) = [m, h, d, mo, w]"
  defines "w1 \<equiv> (if w \<noteq> ''*'' then convertDayOfWeek big w else w)"
  shows "convertCronToEventBridge big s =
           Inr (m @ '' '' @ h @ '' '' @ fst (resolveDays d w1) @ '' '' @ mo @ '' ''
                @ snd (resolveDays d w1) @ '' '' @ ''*'')"
    and "splitWhitespace (m @ '' '' @ h @ '' '' @ fst (resolveDays d w1) @ '' '' @ mo @ '' ''
                @ snd (resolveDays d w1) @ '' '' @ ''*'')
         = [m, h, fst (resolveDays d w1), mo, snd (resolveDays d w1), ''*'']"
proof -
  show "convertCronToEventBridge big s =
           Inr (m @ '' '' @ h @ '' '' @ fst (resolveDays d w1) @ '' '' @ mo @ '' ''
                @ snd (resolveDays d w1) @ '' '' @ ''*'')"
    using convert_five [OF assms(2), of big] by (simp add: w1_def)
  have f: "isField m" "isField h" "isField d" "isField mo" "isField w"
    using tokens_isField [OF assms(2)] by simp_all
  from f(5) assms(1) have "isField w1"
    unfolding w1_def by (rule converted_isField [rotated])
  with f(3) have "isField (fst (resolveDays d w1))" "isField (snd (resolveDays d w1))"
    by (simp_all add: resolveDays_isField)
  with f show "splitWhitespace (m @ '' '' @ h @ '' '' @ fst (resolveDays d w1) @ '' '' @ mo @ '' ''
                @ snd (resolveDays d w1) @ '' '' @ ''*'')
         = [m, h, fst (resolveDays d w1), mo, snd (resolveDays d w1), ''*'']"
    by (intro split_six isField_star)
qed

lemma validate_fields:
  "validateCronExpression s \<longleftrightarrow>
     (\<exists>m h d mo w. splitWhitespace (trim s) = [m, h, d, mo, w]
        \<and> isValidCronField m 0 59 ''minute'' \<and> isValidCronField h 0 23 ''hour''
        \<and> isValidCronField d 1 31 ''dayOfMonth'' \<and> isValidCronField mo 1 12 ''month''
        \<and> isValidCronField w 0 7 ''dayOfWeek'')"
  by (auto simp: validateCronExpression_def split: list.splits)

lemma blank_not_five: "trim s = [] \<Longrightarrow> length (splitWhitespace (trim s)) = 1"
  by (simp add: splitWhitespace.simps [of "[]"])

lemma validate_not_blank: "validateCronExpression s \<Longrightarrow> trim s \<noteq> []"
  using blank_not_five [of s] by (auto simp: validate_fields)

subsection \<open>Fields that begin with a letter\<close>








lemma isValidStep_iff:
  "isValidStep field lo hi \<longleftrightarrow>
     (\<exists>range' step rest stepNum.
        split_str CHR ''/'' field = range' # step # rest
        \<and> parseInt step = Some stepNum \<and> 0 < stepNum
        \<and> (range' = ''*''
           \<or> (includes_str range' CHR ''-'' \<and> isValidRange range' lo hi)
           \<or> (\<not> includes_str range' CHR ''-'' \<and> isValidNumber range' lo hi)))"
  unfolding isValidStep_def
  by (auto split: list.splits option.splits)

lemma isValidCronField_numeric:
  assumes "isValidCronField field lo hi fieldType"
    and "\<not> (fieldType = ''dayOfWeek'' \<and> matchesNamed dayNames field)"
    and "\<not> (fieldType = ''month'' \<and> matchesNamed monthNames field)"
    and "field \<noteq> ''*''"
  shows "(includes_str field CHR ''/'' \<and> isValidStep field lo hi)
       \<or> (\<not> includes_str field CHR ''/'' \<and> isValidRange field lo hi)
       \<or> (\<not> includes_str field CHR ''/''
          \<and> list_all (\<lambda>val. isValidNumber val lo hi) (map trim (split_str CHR '','' field)))
       \<or> (\<not> includes_str field CHR ''/'' \<and> isValidNumber field lo hi)"
  using assms unfolding isValidCronField_def by (simp split: if_splits)






subsection \<open>Letters without case\<close>



















subsection \<open>The pattern for names\<close>

text \<open>In the pattern the run of separators is followed by a run of a class that holds
  the separators too, so the two runs together are one run of that class: the greedy
  reading of \<^const>\<open>matchesNamed\<close> loses no match.\<close>

lemma list_all_dropWhile_separators:
  "list_all isNameTailChar (dropWhile isSeparator xs) = list_all isNameTailChar xs"
  by (induction xs) (simp_all add: isNameTailChar_def)

lemma matchesNamed_tail:
  "matchesNamed names field \<longleftrightarrow>
     map toUpperCase (take 3 field) \<in> set names \<and> list_all isNameTailChar (drop 3 field)"
  by (simp add: matchesNamed_def list_all_dropWhile_separators)

subsection \<open>What the validator refuses as foreign to Unix cron\<close>

lemma refused_wildcards:
  "\<not> isValidCronField ''L'' lo hi ''dayOfMonth''"
  "includes_str field CHR ''W'' \<Longrightarrow> \<not> isValidCronField field lo hi ''dayOfMonth''"
  "includes_str field CHR ''#'' \<Longrightarrow> \<not> isValidCronField field lo hi ''dayOfWeek''"
  "includes_str field CHR ''L'' \<Longrightarrow> \<not> isValidCronField field lo hi ''dayOfWeek''"
  by (auto simp: isValidCronField_def includes_str_def)

lemma refused_wildcards_in_expression:
  assumes "splitWhitespace (trim s) = [minute, hour, dayOfMonth, month, dayOfWeek]"
    and "dayOfMonth = ''L'' \<or> includes_str dayOfMonth CHR ''W''
         \<or> includes_str dayOfWeek CHR ''#'' \<or> includes_str dayOfWeek CHR ''L''"
  shows "\<not> validateCronExpression s"
  using assms refused_wildcards(1) [of 1 31] refused_wildcards(2) [of dayOfMonth 1 31]
    refused_wildcards(3,4) [of dayOfWeek 0 7]
  by (auto simp: validate_fields)

subsection \<open>The conversion of the other revision\<close>

lemma replaceBounded_not_empty:
  assumes "\<And>c. cls c \<Longrightarrow> f c \<noteq> []" and "s \<noteq> []"
  shows "replaceBounded cls f w s \<noteq> []"
  using assms by (cases s) auto

lemma replaceBounded_chars:
  assumes "\<And>c x. cls c \<Longrightarrow> x \<in> set (f c) \<Longrightarrow> isDigit x"
  shows "x \<in> set (replaceBounded cls f w s) \<Longrightarrow> x \<in> set s \<or> isDigit x"
  using assms by (induction cls f w s rule: replaceBounded.induct) (auto split: if_splits)

lemma replaceBounded_single:
  assumes "\<And>c. cls c \<Longrightarrow> f c \<noteq> []"
    and "\<And>c x. cls c \<Longrightarrow> x \<in> set (f c) \<Longrightarrow> isDigit x"
    and "replaceBounded cls f w s = [x]" and "\<not> isDigit x"
  shows "s = [x]"
proof (cases s)
  case Nil
  with assms(3) show ?thesis by simp
next
  case s: (Cons a cs)
  show ?thesis
  proof (cases "cls a \<and> \<not> w \<and> (case cs of [] \<Rightarrow> True | d # _ \<Rightarrow> \<not> isWordChar d)")
    case True
    with assms(3) s have e: "f a @ replaceBounded cls f True cs = [x]"
      by simp
    from True assms(1) have n: "f a \<noteq> []" by blast
    with e have "hd (f a) = x"
      by (cases "f a") auto
    with n have "x \<in> set (f a)"
      using hd_in_set by blast
    with True assms(2,4) show ?thesis by blast
  next
    case False
    with assms(3) s have "a = x \<and> replaceBounded cls f (isWordChar a) cs = []"
      by auto
    with s replaceBounded_not_empty [of cls f cs "isWordChar a"] assms(1) show ?thesis
      by auto
  qed
qed

lemma renumber_callbacks:
  "isOneToSix c \<Longrightarrow> showNat (digitVal c + 1) \<noteq> []"
  "x \<in> set (showNat (digitVal c + 1)) \<Longrightarrow> isDigit x"
  "x \<in> set ''7'' \<Longrightarrow> isDigit x"
  by (auto simp: showNat_not_empty isDigit_def code_def dest: showNat_digits)

lemma renumberDayOfWeek_single:
  assumes "renumberDayOfWeek w = [x]" and "\<not> isDigit x"
  shows "w = [x]"
proof -
  let ?z = "replaceBounded (\<lambda>c. c = CHR ''0'') (\<lambda>c. ''7'') False w"
  from assms have "?z = [x]"
    unfolding renumberDayOfWeek_def
    by (intro replaceBounded_single [of isOneToSix "\<lambda>p1. showNat (digitVal p1 + 1)" False ?z x])
       (auto simp: renumber_callbacks showNat_not_empty dest: showNat_digits)
  with assms(2) show ?thesis
    by (intro replaceBounded_single [of "\<lambda>c. c = CHR ''0''" "\<lambda>c. ''7''" False w x])
       (auto simp: renumber_callbacks showNat_not_empty dest: showNat_digits)
qed

lemma renumberDayOfWeek_isSpecific: "isSpecific w \<Longrightarrow> isSpecific (renumberDayOfWeek w)"
  unfolding isSpecific_def
  using renumberDayOfWeek_single [of w "CHR ''*''"] renumberDayOfWeek_single [of w "CHR ''?''"]
  by (auto simp: isDigit_def code_def)

lemma renumberDayOfWeek_isField:
  assumes "isField w"
  shows "isField (renumberDayOfWeek w)"
proof -
  let ?z = "replaceBounded (\<lambda>c. c = CHR ''0'') (\<lambda>c. ''7'') False w"
  have z: "isField ?z"
    using assms replaceBounded_not_empty [of "\<lambda>c. c = CHR ''0''" "\<lambda>c. ''7''" w False]
      replaceBounded_chars [of "\<lambda>c. c = CHR ''0''" "\<lambda>c. ''7''" _ False w]
    by (auto simp: isField_def noWhitespace_iff renumber_callbacks dest: isDigit_not_whitespace)
  have "renumberDayOfWeek w \<noteq> []"
    unfolding renumberDayOfWeek_def
    using z by (intro replaceBounded_not_empty) (auto simp: renumber_callbacks showNat_not_empty isField_def)
  moreover have "\<not> isWhitespace x" if "x \<in> set (renumberDayOfWeek w)" for x
  proof -
    from that have "x \<in> set ?z \<or> isDigit x"
      unfolding renumberDayOfWeek_def
      by (rule replaceBounded_chars [rotated]) (auto simp: renumber_callbacks showNat_not_empty dest: showNat_digits)
    with z show ?thesis
      by (auto simp: isField_def noWhitespace_iff dest: isDigit_not_whitespace)
  qed
  ultimately show ?thesis
    by (simp add: isField_def noWhitespace_iff)
qed

lemma convert_Index_result:
  assumes "splitWhitespace (trim s) = [m, h, d, mo, w]"
  defines "w' \<equiv> (if w \<noteq> ''*'' \<and> w \<noteq> ''?'' then renumberDayOfWeek w else w)"
  shows "convertCronToEventBridge_Index s =
           Inr (m @ '' '' @ h @ '' '' @ d @ '' '' @ mo @ '' '' @ w' @ '' '' @ ''*'')"
    and "splitWhitespace (m @ '' '' @ h @ '' '' @ d @ '' '' @ mo @ '' '' @ w' @ '' '' @ ''*'')
         = [m, h, d, mo, w', ''*'']"
    and "isSpecific w' \<longleftrightarrow> isSpecific w"
proof -
  show "convertCronToEventBridge_Index s =
           Inr (m @ '' '' @ h @ '' '' @ d @ '' '' @ mo @ '' '' @ w' @ '' '' @ ''*'')"
    using assms(1) by (simp add: convertCronToEventBridge_Index_def w'_def)
  have f: "isField m" "isField h" "isField d" "isField mo" "isField w"
    using tokens_isField [OF assms(1)] by simp_all
  then have "isField w'"
    by (simp add: w'_def renumberDayOfWeek_isField)
  with f show "splitWhitespace (m @ '' '' @ h @ '' '' @ d @ '' '' @ mo @ '' '' @ w' @ '' '' @ ''*'')
         = [m, h, d, mo, w', ''*'']"
    by (intro split_six isField_star)
  show "isSpecific w' \<longleftrightarrow> isSpecific w"
    using renumberDayOfWeek_isSpecific [of w] by (auto simp: w'_def isSpecific_def)
qed

subsection \<open>The validator without field types\<close>

lemma split_str_without_separator: "sep \<notin> set s \<Longrightarrow> split_str sep s = [s]"
  by (induction s) auto

lemma split_str_first:
  "split_str sep s = p # q # rest \<Longrightarrow> \<exists>r. s = p @ sep # r"
proof (induction s arbitrary: p q rest)
  case Nil
  then show ?case by simp
next
  case (Cons a s)
  show ?case
  proof (cases "a = sep")
    case True
    with Cons.prems show ?thesis by auto
  next
    case False
    show ?thesis
    proof (cases "split_str sep s")
      case Nil
      with False Cons.prems show ?thesis by simp
    next
      case c: (Cons p' ps)
      with False Cons.prems have "p = a # p'" "ps = q # rest"
        by simp_all
      with c Cons.IH [of p' q rest] show ?thesis by auto
    qed
  qed
qed

lemma day_name_letters: "[a, b, c] \<in> set dayNames \<Longrightarrow> isUpper a \<and> isUpper b \<and> isUpper c"
  by (auto simp: dayNames_def isUpper_def code_def)


lemma untyped_name_begins_upper:
  "matchesDayNames_untyped field \<Longrightarrow> \<exists>a r. field = a # r \<and> isUpper a"
proof -
  assume "matchesDayNames_untyped field"
  then have t: "take 3 field \<in> set dayNames"
    by (simp add: matchesDayNames_untyped_def)
  then obtain a b c where abc: "take 3 field = [a, b, c]"
    by (auto simp: dayNames_def)
  with t have "isUpper a" by (auto dest: day_name_letters)
  moreover from abc obtain r where "field = a # r"
    by (cases field) auto
  ultimately show ?thesis by blast
qed


lemma untyped_name_is_named: "matchesDayNames_untyped field \<Longrightarrow> take 3 field \<in> set dayNames"
  by (simp add: matchesDayNames_untyped_def)



lemma untyped_star_step:
  assumes "isValidCronField_untyped field lo hi"
    and "split_str CHR ''/'' field = ''*'' # step # rest"
  shows "\<exists>stepNum. parseInt step = Some stepNum \<and> 0 < stepNum"
proof -
  from split_str_first [OF assms(2)] obtain r where f: "field = ''*'' @ CHR ''/'' # r"
    by blast
  then have a: "field \<noteq> ''*''" "includes_str field CHR ''/''"
    by (simp_all add: includes_str_def)
  have "\<not> matchesDayNames_untyped field"
    using untyped_name_begins_upper [of field] f by (auto simp: isUpper_def code_def)
  with assms(1) a have "isValidStep_untyped field lo hi"
    by (simp add: isValidCronField_untyped_def)
  with assms(2) show ?thesis
    by (auto simp: isValidStep_untyped_def split: option.splits)
qed

lemma validate_untyped_fields:
  "validateCronExpression_untyped s \<longleftrightarrow>
     (\<exists>m h d mo w. splitWhitespace (trim s) = [m, h, d, mo, w]
        \<and> isValidCronField_untyped m 0 59 \<and> isValidCronField_untyped h 0 23
        \<and> isValidCronField_untyped d 1 31 \<and> isValidCronField_untyped mo 1 12
        \<and> isValidCronField_untyped w 0 7)"
  by (auto simp: validateCronExpression_untyped_def split: list.splits)

section \<open>The conversion at the inputs of the examples\<close>

text \<open>
  C1. The claim: on an accepted input whose day-of-week field is not \<^verbatim>\<open>*\<close>, the offset
  (0 to 1, otherwise plus one) is applied exactly once to every bare integer of the field,
  also to a range endpoint and to the base of a step, and the step after \<^verbatim>\<open>/\<close> is left
  alone, so that \<^verbatim>\<open>1/2\<close> becomes \<^verbatim>\<open>2/2\<close>. The input \<^verbatim>\<open>0 0 * * 1/2\<close> is accepted, and
  the code turns its day-of-week field into \<^verbatim>\<open>3/3\<close>: the pass over single digits moves
  the base and the step, and the step block moves the base again. In the same way the
  endpoints of \<^verbatim>\<open>1-5\<close> are moved by the range pass and again by the digit pass.
\<close>

theorem C1_step_base_shifted_twice:
  "validateCronExpression ''0 0 * * 1/2''
   \<and> convertCronToEventBridge big ''0 0 * * 1/2'' = Inr ''0 0 ? * 3/3 *''
   \<and> convertDayOfWeek big ''1/2'' = ''3/3''
   \<and> convertDayOfWeek big ''1-5'' = ''3-7''
   \<and> convertDayOfWeek big ''*/2'' = ''*/3''"
  by code_simp

text \<open>
  C3. The claim: the conversion of \<^verbatim>\<open>0 18 * * 1-5\<close> returns \<^verbatim>\<open>0 18 ? * 2-6 *\<close>. The code
  returns \<^verbatim>\<open>0 18 ? * 3-7 *\<close>, and since the validation accepts the input this is what
  the page shows.
\<close>

theorem C3_weekdays_example:
  "convertCronToEventBridge big ''0 18 * * 1-5'' = Inr ''0 18 ? * 3-7 *''
   \<and> validateCronExpression ''0 18 * * 1-5''
   \<and> onUnixCronChange big ''0 18 * * 1-5''
       = \<lparr>eventBridgeCron = ''0 18 ? * 3-7 *'', isValid = True, error = []\<rparr>"
  by code_simp

section \<open>The validation at the inputs of the examples\<close>

text \<open>
  C6. The claim: validation fails whenever the day-of-month field contains \<^verbatim>\<open>L\<close> or
  \<^verbatim>\<open>W\<close> and whenever the day-of-week field contains \<^verbatim>\<open>#\<close> or \<^verbatim>\<open>L\<close>, for instance
  on the day of month \<^verbatim>\<open>2L\<close>. The code compares the day-of-month field with \<^verbatim>\<open>L\<close> as
  a whole, where the three tests beside it look for the character anywhere (lemma
  \<open>refused_wildcards\<close>), and \<^verbatim>\<open>2L\<close> then passes as the number 2.
\<close>

theorem C6_day_of_month_2L_accepted:
  "isValidCronField ''2L'' 1 31 ''dayOfMonth'' \<and> validateCronExpression ''0 0 2L * *''"
  by code_simp

section \<open>The day fields of the result\<close>

text \<open>
  The conversion that has the block on the two day fields: whenever it succeeds, the
  day-of-month and day-of-week fields of the result are never both specific, and they
  follow the table of the source, read on the day-of-week field as the rewriting leaves it
  (which is \<^verbatim>\<open>*\<close> exactly when the input's is).
\<close>

lemma day_fields_resolved:
  assumes "\<forall>x. noWhitespace (big x)" and "convertCronToEventBridge big s = Inr out"
  shows "\<exists>minute hour dayOfMonth month dayOfWeek dayOfMonth' dayOfWeek'.
           splitWhitespace (trim s) = [minute, hour, dayOfMonth, month, dayOfWeek]
         \<and> splitWhitespace out = [minute, hour, dayOfMonth', month, dayOfWeek', ''*'']
         \<and> \<not> (isSpecific dayOfMonth' \<and> isSpecific dayOfWeek')
         \<and> (dayOfMonth \<noteq> ''*'' \<and> dayOfWeek \<noteq> ''*''
              \<longrightarrow> dayOfMonth' = dayOfMonth \<and> dayOfWeek' = ''?'')
         \<and> (dayOfMonth = ''*'' \<and> dayOfWeek = ''*''
              \<longrightarrow> dayOfMonth' = ''*'' \<and> dayOfWeek' = ''?'')
         \<and> (dayOfMonth = ''*'' \<and> dayOfWeek \<noteq> ''*''
              \<longrightarrow> dayOfMonth' = ''?'' \<and> dayOfWeek' = convertDayOfWeek big dayOfWeek)
         \<and> (dayOfMonth \<noteq> ''*'' \<and> dayOfWeek = ''*''
              \<longrightarrow> dayOfMonth' = dayOfMonth \<and> dayOfWeek' = ''*'')"
proof -
  have "length (splitWhitespace (trim s)) = 5"
    using convert_error_iff [of big s] assms(2) by auto
  then obtain m h d mo w where t: "splitWhitespace (trim s) = [m, h, d, mo, w]"
    by (auto simp: length_five)
  let ?w1 = "if w \<noteq> ''*'' then convertDayOfWeek big w else w"
  let ?d' = "fst (resolveDays d ?w1)"
  let ?w' = "snd (resolveDays d ?w1)"
  have star: "w \<noteq> ''*'' \<Longrightarrow> convertDayOfWeek big w \<noteq> ''*''"
    by (blast dest: convertDayOfWeek_star)
  from convert_result [OF assms(1) t] assms(2)
  have o: "splitWhitespace out = [m, h, ?d', mo, ?w', ''*'']"
    by simp
  have "\<not> (isSpecific ?d' \<and> isSpecific ?w')"
    by (simp add: resolveDays_def isSpecific_def)
  moreover have "d \<noteq> ''*'' \<and> w \<noteq> ''*'' \<longrightarrow> ?d' = d \<and> ?w' = ''?''"
    using star by (auto simp: resolveDays_def)
  moreover have "d = ''*'' \<and> w = ''*'' \<longrightarrow> ?d' = ''*'' \<and> ?w' = ''?''"
    by (simp add: resolveDays_def)
  moreover have "d = ''*'' \<and> w \<noteq> ''*'' \<longrightarrow> ?d' = ''?'' \<and> ?w' = convertDayOfWeek big w"
    using star by (auto simp: resolveDays_def)
  moreover have "d \<noteq> ''*'' \<and> w = ''*'' \<longrightarrow> ?d' = d \<and> ?w' = ''*''"
    by (simp add: resolveDays_def)
  ultimately show ?thesis
    using t o by blast
qed

text \<open>
  C2, as stated: on every input on which the conversion succeeds the two day fields of the
  result are never both specific. The conversion of \<^verbatim>\<open>src/pages/Index.tsx\<close> has no block
  on the day fields and returns both as specific as they came.
\<close>

theorem C2_both_day_fields_specific:
  "convertCronToEventBridge_Index ''0 0 15 * 3'' = Inr ''0 0 15 * 4 *''
   \<and> splitWhitespace ''0 0 15 * 4 *'' = [''0'', ''0'', ''15'', ''*'', ''4'', ''*'']
   \<and> isSpecific ''15'' \<and> isSpecific ''4''"
  by code_simp

text \<open>
  C2, amended: on every input on which the conversion with the day-field block (the one
  beside the typed validator) succeeds, the day-of-month and day-of-week fields of the
  result are never both specific, and the resolution follows the table: both not \<^verbatim>\<open>*\<close>,
  day-of-week becomes \<^verbatim>\<open>?\<close> and day-of-month stays; both \<^verbatim>\<open>*\<close>, day-of-week becomes
  \<^verbatim>\<open>?\<close> and day-of-month stays \<^verbatim>\<open>*\<close>; day-of-month \<^verbatim>\<open>*\<close> and day-of-week not,
  day-of-month becomes \<^verbatim>\<open>?\<close> and the rewritten day-of-week stays; day-of-month not
  \<^verbatim>\<open>*\<close> and day-of-week \<^verbatim>\<open>*\<close>, both stay. The conversion of
  \<^verbatim>\<open>src/pages/Index.tsx\<close> resolves nothing: it returns the day-of-month field as given
  and the day-of-week field renumbered, specific exactly when the input's is.
\<close>

theorem C2_day_fields_by_revision:
  "((\<forall>x. noWhitespace (big x)) \<and> convertCronToEventBridge big s = Inr out
     \<longrightarrow> (\<exists>minute hour dayOfMonth month dayOfWeek dayOfMonth' dayOfWeek'.
           splitWhitespace (trim s) = [minute, hour, dayOfMonth, month, dayOfWeek]
         \<and> splitWhitespace out = [minute, hour, dayOfMonth', month, dayOfWeek', ''*'']
         \<and> \<not> (isSpecific dayOfMonth' \<and> isSpecific dayOfWeek')
         \<and> (dayOfMonth \<noteq> ''*'' \<and> dayOfWeek \<noteq> ''*''
              \<longrightarrow> dayOfMonth' = dayOfMonth \<and> dayOfWeek' = ''?'')
         \<and> (dayOfMonth = ''*'' \<and> dayOfWeek = ''*''
              \<longrightarrow> dayOfMonth' = ''*'' \<and> dayOfWeek' = ''?'')
         \<and> (dayOfMonth = ''*'' \<and> dayOfWeek \<noteq> ''*''
              \<longrightarrow> dayOfMonth' = ''?'' \<and> dayOfWeek' = convertDayOfWeek big dayOfWeek)
         \<and> (dayOfMonth \<noteq> ''*'' \<and> dayOfWeek = ''*''
              \<longrightarrow> dayOfMonth' = dayOfMonth \<and> dayOfWeek' = ''*'')))
   \<and> (splitWhitespace (trim s) = [minute, hour, dayOfMonth, month, dayOfWeek]
     \<longrightarrow> (\<exists>dayOfWeek'.
           convertCronToEventBridge_Index s =
             Inr (minute @ '' '' @ hour @ '' '' @ dayOfMonth @ '' '' @ month @ '' ''
                  @ dayOfWeek' @ '' '' @ ''*'')
         \<and> splitWhitespace (minute @ '' '' @ hour @ '' '' @ dayOfMonth @ '' '' @ month @ '' ''
                  @ dayOfWeek' @ '' '' @ ''*'')
             = [minute, hour, dayOfMonth, month, dayOfWeek', ''*'']
         \<and> dayOfWeek' = (if dayOfWeek \<noteq> ''*'' \<and> dayOfWeek \<noteq> ''?''
                          then renumberDayOfWeek dayOfWeek else dayOfWeek)
         \<and> (isSpecific dayOfWeek' \<longleftrightarrow> isSpecific dayOfWeek)))"
proof (intro conjI impI)
  assume a: "(\<forall>x. noWhitespace (big x)) \<and> convertCronToEventBridge big s = Inr out"
  then have "\<forall>x. noWhitespace (big x)" and "convertCronToEventBridge big s = Inr out"
    by blast+
  then show "\<exists>minute hour dayOfMonth month dayOfWeek dayOfMonth' dayOfWeek'.
           splitWhitespace (trim s) = [minute, hour, dayOfMonth, month, dayOfWeek]
         \<and> splitWhitespace out = [minute, hour, dayOfMonth', month, dayOfWeek', ''*'']
         \<and> \<not> (isSpecific dayOfMonth' \<and> isSpecific dayOfWeek')
         \<and> (dayOfMonth \<noteq> ''*'' \<and> dayOfWeek \<noteq> ''*''
              \<longrightarrow> dayOfMonth' = dayOfMonth \<and> dayOfWeek' = ''?'')
         \<and> (dayOfMonth = ''*'' \<and> dayOfWeek = ''*''
              \<longrightarrow> dayOfMonth' = ''*'' \<and> dayOfWeek' = ''?'')
         \<and> (dayOfMonth = ''*'' \<and> dayOfWeek \<noteq> ''*''
              \<longrightarrow> dayOfMonth' = ''?'' \<and> dayOfWeek' = convertDayOfWeek big dayOfWeek)
         \<and> (dayOfMonth \<noteq> ''*'' \<and> dayOfWeek = ''*''
              \<longrightarrow> dayOfMonth' = dayOfMonth \<and> dayOfWeek' = ''*'')"
    by (rule day_fields_resolved)
next
  assume t: "splitWhitespace (trim s) = [minute, hour, dayOfMonth, month, dayOfWeek]"
  from convert_Index_result [OF t]
  show "\<exists>dayOfWeek'.
           convertCronToEventBridge_Index s =
             Inr (minute @ '' '' @ hour @ '' '' @ dayOfMonth @ '' '' @ month @ '' ''
                  @ dayOfWeek' @ '' '' @ ''*'')
         \<and> splitWhitespace (minute @ '' '' @ hour @ '' '' @ dayOfMonth @ '' '' @ month @ '' ''
                  @ dayOfWeek' @ '' '' @ ''*'')
             = [minute, hour, dayOfMonth, month, dayOfWeek', ''*'']
         \<and> dayOfWeek' = (if dayOfWeek \<noteq> ''*'' \<and> dayOfWeek \<noteq> ''?''
                          then renumberDayOfWeek dayOfWeek else dayOfWeek)
         \<and> (isSpecific dayOfWeek' \<longleftrightarrow> isSpecific dayOfWeek)"
    by blast
qed

theorem C2_day_fields_by_revision_witness:
  "(\<forall>x. noWhitespace (decimal x))
   \<and> convertCronToEventBridge decimal ''0 0 15 * 3'' = Inr ''0 0 15 * ? *''
   \<and> (\<exists>dayOfMonth' dayOfWeek'.
         (\<exists>minute hour month.
            splitWhitespace ''0 0 15 * ? *'' = [minute, hour, dayOfMonth', month, dayOfWeek', ''*''])
         \<and> \<not> (isSpecific dayOfMonth' \<and> isSpecific dayOfWeek'))
   \<and> splitWhitespace (trim ''0 0 15 * 3'') = [''0'', ''0'', ''15'', ''*'', ''3'']
   \<and> (\<exists>dayOfWeek'. convertCronToEventBridge_Index ''0 0 15 * 3''
          = Inr (''0 0 15 * '' @ dayOfWeek' @ '' *'') \<and> isSpecific dayOfWeek')"
proof -
  have b: "\<forall>x. noWhitespace (decimal x)"
    by (simp add: decimal_noWhitespace)
  have c: "convertCronToEventBridge decimal ''0 0 15 * 3'' = Inr ''0 0 15 * ? *''"
    by code_simp
  have t: "splitWhitespace (trim ''0 0 15 * 3'') = [''0'', ''0'', ''15'', ''*'', ''3'']"
    by code_simp
  have sp: "isSpecific ''3''"
    by (simp add: isSpecific_def)
  note th = C2_day_fields_by_revision [of decimal "''0 0 15 * 3''" "''0 0 15 * ? *''"
      "''0''" "''0''" "''15''" "''*''" "''3''"]
  from th b c have
    "\<exists>dayOfMonth' dayOfWeek'.
         (\<exists>minute hour month.
            splitWhitespace ''0 0 15 * ? *'' = [minute, hour, dayOfMonth', month, dayOfWeek', ''*''])
         \<and> \<not> (isSpecific dayOfMonth' \<and> isSpecific dayOfWeek')"
    by blast
  moreover from th t sp have
    "\<exists>dayOfWeek'. convertCronToEventBridge_Index ''0 0 15 * 3''
          = Inr (''0 0 15 * '' @ dayOfWeek' @ '' *'') \<and> isSpecific dayOfWeek'"
    by auto
  ultimately show ?thesis
    using b c t by blast
qed

section \<open>The fields of the result\<close>

text \<open>
  C9. On every input that the validation accepts, the conversion returns six fields joined
  by single spaces: the minute, hour and month fields of the input in the first, second
  and fourth place, the resolved day-of-month and day-of-week fields in the third and
  fifth, and \<^verbatim>\<open>*\<close> as the sixth, the year.
\<close>

theorem C9_six_fields_year_star:
  assumes "\<forall>x. noWhitespace (big x)" and "validateCronExpression s"
  shows "\<exists>minute hour dayOfMonth month dayOfWeek dayOfMonth' dayOfWeek' out.
           splitWhitespace (trim s) = [minute, hour, dayOfMonth, month, dayOfWeek]
         \<and> convertCronToEventBridge big s = Inr out
         \<and> out = minute @ '' '' @ hour @ '' '' @ dayOfMonth' @ '' '' @ month @ '' ''
                  @ dayOfWeek' @ '' '' @ ''*''
         \<and> splitWhitespace out = [minute, hour, dayOfMonth', month, dayOfWeek', ''*'']
         \<and> (dayOfMonth', dayOfWeek') =
             resolveDays dayOfMonth
               (if dayOfWeek \<noteq> ''*'' then convertDayOfWeek big dayOfWeek else dayOfWeek)"
proof -
  from assms(2) obtain m h d mo w where t: "splitWhitespace (trim s) = [m, h, d, mo, w]"
    by (auto simp: validate_fields)
  let ?w1 = "if w \<noteq> ''*'' then convertDayOfWeek big w else w"
  let ?d' = "fst (resolveDays d ?w1)"
  let ?w' = "snd (resolveDays d ?w1)"
  let ?out = "m @ '' '' @ h @ '' '' @ ?d' @ '' '' @ mo @ '' '' @ ?w' @ '' '' @ ''*''"
  have r1: "convertCronToEventBridge big s = Inr ?out"
    by (rule convert_result(1) [OF assms(1) t])
  have r2: "splitWhitespace ?out = [m, h, ?d', mo, ?w', ''*'']"
    by (rule convert_result(2) [OF assms(1) t])
  have r3: "(?d', ?w') = resolveDays d ?w1"
    by simp
  from t r1 r2 r3 show ?thesis
    by blast
qed

theorem C9_six_fields_witness:
  "(\<forall>x. noWhitespace (decimal x)) \<and> validateCronExpression ''30 14 * * 0''
   \<and> convertCronToEventBridge decimal ''30 14 * * 0'' = Inr ''30 14 ? * 1 *''
   \<and> (\<exists>minute hour dayOfMonth' month dayOfWeek'.
         splitWhitespace ''30 14 ? * 1 *'' = [minute, hour, dayOfMonth', month, dayOfWeek', ''*''])"
proof -
  have b: "\<forall>x. noWhitespace (decimal x)"
    by (simp add: decimal_noWhitespace)
  have v: "validateCronExpression ''30 14 * * 0''"
    by code_simp
  have c: "convertCronToEventBridge decimal ''30 14 * * 0'' = Inr ''30 14 ? * 1 *''"
    by code_simp
  from C9_six_fields_year_star [OF b v] c have
    "\<exists>minute hour dayOfMonth' month dayOfWeek'.
         splitWhitespace ''30 14 ? * 1 *'' = [minute, hour, dayOfMonth', month, dayOfWeek', ''*'']"
    by auto
  with b v c show ?thesis by blast
qed

text \<open>
  C10. On every input that splits into exactly five pieces the conversion returns a string
  of six fields and raises no error, whatever the pieces are; \<^verbatim>\<open>99 99 99 99 99\<close> becomes
  \<^verbatim>\<open>99 99 99 99 ? *\<close>. The number of pieces is the only thing it checks: any other
  number raises the error about the field count.
\<close>

theorem C10_only_the_field_count_is_checked:
  assumes "\<forall>x. noWhitespace (big x)"
  shows "(length (splitWhitespace (trim s)) = 5
           \<longrightarrow> (\<exists>out. convertCronToEventBridge big s = Inr out
                  \<and> length (splitWhitespace out) = 6))
       \<and> (length (splitWhitespace (trim s)) \<noteq> 5
           \<longrightarrow> convertCronToEventBridge big s = Inl (Error fieldCountMessage))
       \<and> convertCronToEventBridge big ''99 99 99 99 99'' = Inr ''99 99 99 99 ? *''"
proof (intro conjI impI)
  assume "length (splitWhitespace (trim s)) = 5"
  then obtain m h d mo w where t: "splitWhitespace (trim s) = [m, h, d, mo, w]"
    by (auto simp: length_five)
  from convert_result [OF assms t]
  show "\<exists>out. convertCronToEventBridge big s = Inr out \<and> length (splitWhitespace out) = 6"
    by simp
next
  assume "length (splitWhitespace (trim s)) \<noteq> 5"
  then obtain e where "convertCronToEventBridge big s = Inl e"
    using convert_error_iff [of big s] by blast
  then show "convertCronToEventBridge big s = Inl (Error fieldCountMessage)"
    by (auto simp: convertCronToEventBridge_def Let_def split_beta split: list.splits)
next
  show "convertCronToEventBridge big ''99 99 99 99 99'' = Inr ''99 99 99 99 ? *''"
    by code_simp
qed

theorem C10_field_count_witness:
  "(\<forall>x. noWhitespace (decimal x))
   \<and> length (splitWhitespace (trim ''60 9 * * 1'')) = 5
   \<and> (\<exists>out. convertCronToEventBridge decimal ''60 9 * * 1'' = Inr out
         \<and> length (splitWhitespace out) = 6)
   \<and> length (splitWhitespace (trim ''0 9 * *'')) \<noteq> 5
   \<and> convertCronToEventBridge decimal ''0 9 * *'' = Inl (Error fieldCountMessage)"
proof -
  have b: "\<forall>x. noWhitespace (decimal x)"
    by (simp add: decimal_noWhitespace)
  have f: "length (splitWhitespace (trim ''60 9 * * 1'')) = 5"
    by code_simp
  have g: "length (splitWhitespace (trim ''0 9 * *'')) \<noteq> 5"
    by code_simp
  from C10_only_the_field_count_is_checked [OF b, of "''60 9 * * 1''"] f
  have "\<exists>out. convertCronToEventBridge decimal ''60 9 * * 1'' = Inr out
         \<and> length (splitWhitespace out) = 6"
    by blast
  moreover from C10_only_the_field_count_is_checked [OF b, of "''0 9 * *''"] g
  have "convertCronToEventBridge decimal ''0 9 * *'' = Inl (Error fieldCountMessage)"
    by blast
  ultimately show ?thesis
    using b f g by blast
qed

section \<open>Validation and conversion together\<close>

text \<open>
  C5, as stated: the conversion fails exactly when the validation returns false. The
  input \<^verbatim>\<open>60 9 * * 1\<close> is rejected by the validation (minute 60) and converted all the
  same.
\<close>

theorem C5_rejected_input_is_converted:
  "\<not> validateCronExpression ''60 9 * * 1''
   \<and> convertCronToEventBridge decimal ''60 9 * * 1'' = Inr ''60 9 ? * 2 *''"
  by code_simp

text \<open>
  C5, amended: whenever the validation returns true the conversion returns the six-field
  expression; the conversion itself raises an error exactly when the input does not split
  into five pieces, so it never fails on an input the validation accepts; and it is the
  effect of the page, which validates before it converts, that reports an error and
  shows no result whenever the validation returns false on an input that is not blank.
\<close>

theorem C5_validation_before_conversion:
  assumes "\<forall>x. noWhitespace (big x)"
  shows "(validateCronExpression s
           \<longrightarrow> (\<exists>out. convertCronToEventBridge big s = Inr out
                  \<and> length (splitWhitespace out) = 6
                  \<and> onUnixCronChange big s = \<lparr>eventBridgeCron = out, isValid = True, error = []\<rparr>))
       \<and> ((\<exists>e. convertCronToEventBridge big s = Inl e)
           \<longleftrightarrow> length (splitWhitespace (trim s)) \<noteq> 5)
       \<and> ((\<exists>e. convertCronToEventBridge big s = Inl e) \<longrightarrow> \<not> validateCronExpression s)
       \<and> (\<not> validateCronExpression s \<and> trim s \<noteq> []
           \<longrightarrow> onUnixCronChange big s
               = \<lparr>eventBridgeCron = [], isValid = False, error = invalidMessage\<rparr>)"
proof (intro conjI impI)
  assume v: "validateCronExpression s"
  then obtain m h d mo w where t: "splitWhitespace (trim s) = [m, h, d, mo, w]"
    by (auto simp: validate_fields)
  from convert_result [OF assms t] obtain out
    where o: "convertCronToEventBridge big s = Inr out" "length (splitWhitespace out) = 6"
    by simp
  from v o(1) have "onUnixCronChange big s = \<lparr>eventBridgeCron = out, isValid = True, error = []\<rparr>"
    by (simp add: onUnixCronChange_def validate_not_blank)
  with o show "\<exists>out. convertCronToEventBridge big s = Inr out
                  \<and> length (splitWhitespace out) = 6
                  \<and> onUnixCronChange big s = \<lparr>eventBridgeCron = out, isValid = True, error = []\<rparr>"
    by blast
next
  show "(\<exists>e. convertCronToEventBridge big s = Inl e)
           \<longleftrightarrow> length (splitWhitespace (trim s)) \<noteq> 5"
    by (rule convert_error_iff)
next
  assume "\<exists>e. convertCronToEventBridge big s = Inl e"
  then have "length (splitWhitespace (trim s)) \<noteq> 5"
    by (simp add: convert_error_iff)
  then show "\<not> validateCronExpression s"
    by (auto simp: validate_fields)
next
  assume "\<not> validateCronExpression s \<and> trim s \<noteq> []"
  then show "onUnixCronChange big s
               = \<lparr>eventBridgeCron = [], isValid = False, error = invalidMessage\<rparr>"
    by (simp add: onUnixCronChange_def)
qed

theorem C5_validation_before_conversion_witness:
  "(\<forall>x. noWhitespace (decimal x))
   \<and> validateCronExpression ''0 9 * * 1''
   \<and> (\<exists>out. onUnixCronChange decimal ''0 9 * * 1''
              = \<lparr>eventBridgeCron = out, isValid = True, error = []\<rparr>)
   \<and> \<not> validateCronExpression ''60 9 * * 1'' \<and> trim ''60 9 * * 1'' \<noteq> []
   \<and> onUnixCronChange decimal ''60 9 * * 1''
       = \<lparr>eventBridgeCron = [], isValid = False, error = invalidMessage\<rparr>"
proof -
  have b: "\<forall>x. noWhitespace (decimal x)"
    by (simp add: decimal_noWhitespace)
  have v: "validateCronExpression ''0 9 * * 1''"
    by code_simp
  have n: "\<not> validateCronExpression ''60 9 * * 1''" "trim ''60 9 * * 1'' \<noteq> []"
    by code_simp+
  from C5_validation_before_conversion [OF b, of "''0 9 * * 1''"] v
  have "\<exists>out. onUnixCronChange decimal ''0 9 * * 1''
              = \<lparr>eventBridgeCron = out, isValid = True, error = []\<rparr>"
    by blast
  moreover from C5_validation_before_conversion [OF b, of "''60 9 * * 1''"] n
  have "onUnixCronChange decimal ''60 9 * * 1''
       = \<lparr>eventBridgeCron = [], isValid = False, error = invalidMessage\<rparr>"
    by blast
  ultimately show ?thesis
    using b v n by blast
qed

section \<open>The numbering of the days\<close>

text \<open>
  C4. The claim: the remap sends 0 to 1, 1 to 2, and so on to 6 to 7, and 7 to 1, so that a
  day-of-week field that is the single integer 7 (Sunday, as 0 is) is rewritten to 1. The
  code leaves 7 as it is: the accepted input \<^verbatim>\<open>0 0 * * 7\<close> comes out with day of week 7,
  which is what 6 and \<^verbatim>\<open>SAT\<close> (Saturday) come out as, while 0 comes out as 1.
\<close>

theorem C4_seven_comes_out_as_six_does:
  "validateCronExpression ''0 0 * * 7''
   \<and> convertCronToEventBridge big ''0 0 * * 7'' = Inr ''0 0 ? * 7 *''
   \<and> convertCronToEventBridge big ''0 0 * * 6'' = Inr ''0 0 ? * 7 *''
   \<and> convertCronToEventBridge big ''0 0 * * SAT'' = Inr ''0 0 ? * 7 *''
   \<and> convertCronToEventBridge big ''0 0 * * 0'' = Inr ''0 0 ? * 1 *''
   \<and> convertDayOfWeek big ''7'' = ''7'' \<and> digitCallback CHR ''7'' = ''7''"
  by code_simp

text \<open>
  On one-digit fields from 0 to 6 the numbering is the one the claim gives: 0 to 1, 1 to
  2, up to 6 to 7, one to one.
\<close>

lemma day_numbers_zero_to_six:
  "(\<forall>n\<le>6. convertDayOfWeek big (showNat n) = showNat (n + 1))
   \<and> inj_on (\<lambda>n. convertDayOfWeek big (showNat n)) {0..6}
   \<and> convertDayOfWeek big ''0'' = ''1'' \<and> convertDayOfWeek big ''6'' = ''7''
   \<and> convertDayOfWeek big ''7'' = ''7'' \<and> digitCallback CHR ''7'' = ''7''
   \<and> (splitWhitespace (trim s) = [minute, hour, dayOfMonth, month, ''7'']
        \<longrightarrow> convertCronToEventBridge big s =
              Inr (minute @ '' '' @ hour @ '' '' @ (if dayOfMonth = ''*'' then ''?'' else dayOfMonth)
                   @ '' '' @ month @ '' '' @ (if dayOfMonth = ''*'' then ''7'' else ''?'') @ '' *''))"
proof (intro conjI impI)
  have "list_all (\<lambda>n. convertDayOfWeek big (showNat n) = showNat (n + 1)) [0..<7]"
    by code_simp
  then have up: "\<And>n. n \<le> 6 \<Longrightarrow> convertDayOfWeek big (showNat n) = showNat (n + 1)"
    by (simp add: list_all_iff)
  then show "\<forall>n\<le>6. convertDayOfWeek big (showNat n) = showNat (n + 1)"
    by blast
  have "list_all (\<lambda>x. list_all (\<lambda>y. showNat (x + 1) = showNat (y + 1) \<longrightarrow> x = y) [0..<7]) [0..<7]"
    by code_simp
  then have "\<And>x y. x \<le> 6 \<Longrightarrow> y \<le> 6 \<Longrightarrow> showNat (x + 1) = showNat (y + 1) \<Longrightarrow> x = y"
    by (simp add: list_all_iff)
  with up show "inj_on (\<lambda>n. convertDayOfWeek big (showNat n)) {0..6}"
    by (simp add: inj_on_def)
  show "convertDayOfWeek big ''0'' = ''1''" "convertDayOfWeek big ''6'' = ''7''"
    by code_simp+
  show seven: "convertDayOfWeek big ''7'' = ''7''"
    by code_simp
  show "digitCallback CHR ''7'' = ''7''"
    by code_simp
  assume t: "splitWhitespace (trim s) = [minute, hour, dayOfMonth, month, ''7'']"
  from convert_five [OF t, of big] seven
  show "convertCronToEventBridge big s =
              Inr (minute @ '' '' @ hour @ '' '' @ (if dayOfMonth = ''*'' then ''?'' else dayOfMonth)
                   @ '' '' @ month @ '' '' @ (if dayOfMonth = ''*'' then ''7'' else ''?'') @ '' *'')"
    by (simp add: resolveDays_def)
qed

section \<open>Steps and names in the validation\<close>

text \<open>
  The typed validator: a field that contains \<^verbatim>\<open>/\<close> and is not accepted by the name rule
  is rejected unless the piece after the first \<^verbatim>\<open>/\<close> parses to an integer above 0,
  whatever stands before the \<^verbatim>\<open>/\<close>.
\<close>

lemma typed_step_above_zero:
  assumes "includes_str field CHR ''/''"
    and "isValidCronField field min' max' fieldType"
    and "\<not> (fieldType = ''dayOfWeek'' \<and> matchesNamed dayNames field)"
    and "\<not> (fieldType = ''month'' \<and> matchesNamed monthNames field)"
  shows "\<exists>range' step rest stepNum.
           split_str CHR ''/'' field = range' # step # rest
           \<and> parseInt step = Some stepNum \<and> 0 < stepNum"
proof -
  from assms(1) have "field \<noteq> ''*''"
    by (auto simp: includes_str_def)
  from isValidCronField_numeric [OF assms(2,3,4) this] assms(1)
  have "isValidStep field min' max'"
    by simp
  then show ?thesis
    unfolding isValidStep_iff by blast
qed

text \<open>
  C7, as stated: a field of the form range/step is rejected unless the step parses to an
  integer above 0, whatever the range part is. In the typed validator the day-of-week
  field \<^verbatim>\<open>MON/0\<close> is accepted: the test for a day name comes first and lets everything
  behind the name pass. In the validator without field types \<^verbatim>\<open>5/0\<close> and \<^verbatim>\<open>1-10/0\<close>
  are accepted: it parses the step only behind \<^verbatim>\<open>*\<close>.
\<close>

theorem C7_zero_steps_accepted:
  "validateCronExpression ''0 0 * * MON/0''
   \<and> split_str CHR ''/'' ''MON/0'' = [''MON'', ''0''] \<and> parseInt ''0'' = Some 0
   \<and> isValidCronField_untyped ''5/0'' 0 59 \<and> isValidCronField_untyped ''1-10/0'' 0 59
   \<and> validateCronExpression_untyped ''5/0 0 * * *''"
  by code_simp

text \<open>
  C7, amended: in the typed validator, a field that contains \<^verbatim>\<open>/\<close> and is not accepted
  by the name rule (a day name in the day-of-week field, a month name in the month field)
  is rejected unless the piece after the first \<^verbatim>\<open>/\<close> parses to an integer above 0,
  whatever stands before the \<^verbatim>\<open>/\<close>: \<^verbatim>\<open>*\<close>, a range or a number. In the validator
  without field types, a field whose piece before the first \<^verbatim>\<open>/\<close> is \<^verbatim>\<open>*\<close> is
  rejected unless the piece after it parses to an integer above 0.
\<close>

theorem C7_step_above_zero_by_validator:
  "(includes_str field CHR ''/'' \<and> isValidCronField field min' max' fieldType
      \<and> \<not> (fieldType = ''dayOfWeek'' \<and> matchesNamed dayNames field)
      \<and> \<not> (fieldType = ''month'' \<and> matchesNamed monthNames field)
     \<longrightarrow> (\<exists>range' step rest stepNum.
           split_str CHR ''/'' field = range' # step # rest
           \<and> parseInt step = Some stepNum \<and> 0 < stepNum))
   \<and> (isValidCronField_untyped field' min' max'
      \<and> split_str CHR ''/'' field' = ''*'' # step' # rest'
     \<longrightarrow> (\<exists>stepNum. parseInt step' = Some stepNum \<and> 0 < stepNum))"
proof (intro conjI impI)
  assume "includes_str field CHR ''/'' \<and> isValidCronField field min' max' fieldType
      \<and> \<not> (fieldType = ''dayOfWeek'' \<and> matchesNamed dayNames field)
      \<and> \<not> (fieldType = ''month'' \<and> matchesNamed monthNames field)"
  then have "includes_str field CHR ''/''" "isValidCronField field min' max' fieldType"
    "\<not> (fieldType = ''dayOfWeek'' \<and> matchesNamed dayNames field)"
    "\<not> (fieldType = ''month'' \<and> matchesNamed monthNames field)"
    by blast+
  then show "\<exists>range' step rest stepNum.
           split_str CHR ''/'' field = range' # step # rest
           \<and> parseInt step = Some stepNum \<and> 0 < stepNum"
    by (rule typed_step_above_zero)
next
  assume "isValidCronField_untyped field' min' max'
      \<and> split_str CHR ''/'' field' = ''*'' # step' # rest'"
  then show "\<exists>stepNum. parseInt step' = Some stepNum \<and> 0 < stepNum"
    using untyped_star_step by blast
qed

theorem C7_step_above_zero_by_validator_witness:
  "includes_str ''1-10/2'' CHR ''/'' \<and> isValidCronField ''1-10/2'' 0 59 ''minute''
   \<and> (\<exists>range' step rest stepNum.
         split_str CHR ''/'' ''1-10/2'' = range' # step # rest
         \<and> parseInt step = Some stepNum \<and> 0 < stepNum)
   \<and> \<not> isValidCronField ''*/0'' 0 59 ''minute'' \<and> \<not> isValidCronField ''1-10/-2'' 0 59 ''minute''
   \<and> \<not> isValidCronField ''5/x'' 0 59 ''minute''
   \<and> isValidCronField_untyped ''*/15'' 0 59
   \<and> split_str CHR ''/'' ''*/15'' = [''*'', ''15'']
   \<and> (\<exists>stepNum. parseInt ''15'' = Some stepNum \<and> 0 < stepNum)
   \<and> \<not> isValidCronField_untyped ''*/0'' 0 59"
proof -
  have a: "includes_str ''1-10/2'' CHR ''/''" "isValidCronField ''1-10/2'' 0 59 ''minute''"
    by code_simp+
  have n: "\<not> (''minute'' = ''dayOfWeek'' \<and> matchesNamed dayNames ''1-10/2'')"
    "\<not> (''minute'' = ''month'' \<and> matchesNamed monthNames ''1-10/2'')"
    by simp_all
  have r: "\<not> isValidCronField ''*/0'' 0 59 ''minute''"
    "\<not> isValidCronField ''1-10/-2'' 0 59 ''minute''" "\<not> isValidCronField ''5/x'' 0 59 ''minute''"
    "\<not> isValidCronField_untyped ''*/0'' 0 59"
    by code_simp+
  have u: "isValidCronField_untyped ''*/15'' 0 59" "split_str CHR ''/'' ''*/15'' = [''*'', ''15'']"
    by code_simp+
  note th = C7_step_above_zero_by_validator [of "''1-10/2''" 0 59 "''minute''" "''*/15''"
      "''15''" "[]"]
  from th a n have "\<exists>range' step rest stepNum.
         split_str CHR ''/'' ''1-10/2'' = range' # step # rest
         \<and> parseInt step = Some stepNum \<and> 0 < stepNum"
    by blast
  moreover from th u have "\<exists>stepNum. parseInt ''15'' = Some stepNum \<and> 0 < stepNum"
    by blast
  ultimately show ?thesis
    using a r u by blast
qed





end
